theory Spec2Isabelle
  imports Complex_Main "HOL-Library.Sublist" "HOL-Library.Word"
begin

section \<open>Strings and numbers of the host language\<close>

text \<open>
  Strings are character lists.  \<open>includes_str s t\<close> is \<^verbatim>\<open>s.includes(t)\<close>: whether \<open>t\<close> occurs
  in \<open>s\<close> as a contiguous run of characters (the empty string occurs in every string).
\<close>

fun includes_str :: "string \<Rightarrow> string \<Rightarrow> bool" where
  "includes_str [] t = (t = [])"
| "includes_str (c # cs) t = (prefix t (c # cs) \<or> includes_str cs t)"

text \<open>
  A number of the host language is NaN, an infinity, or a finite number given by its sign
  and its shortest decimal digits: \<open>Finite neg s n\<close> is the number whose digits are the
  decimal digits \<open>d1 ... dk\<close> of \<open>s\<close> (trailing zeros do not count) and whose value is
  \<open>0.d1 ... dk * 10^n\<close>, negated when \<open>neg\<close>.  So 5 is \<open>Finite False 5 1\<close>, 2.5 is
  \<open>Finite False 25 1\<close>, \<open>10^21\<close> is \<open>Finite False 1 22\<close>, and zero is any \<open>Finite neg 0 n\<close>.
  \<open>numberToString\<close> is the rendering of a number in a template literal (Number::toString of
  the language standard, radix 10): NaN, Infinity, 0, a minus sign for a negative number;
  plain digits, with zeros appended or a decimal point inserted, when the point position
  \<open>n\<close> is from -5 to 21; exponent notation otherwise (\<open>10^21\<close> is rendered 1e+21).
  \<open>Integer i\<close> is the number of a safe integer \<open>i\<close> (magnitude at most \<open>2^53 - 1\<close>): the shortest
  digits of such a number are the digits of the integer without its trailing zeros.
\<close>

fun digits :: "nat \<Rightarrow> string" where
  "digits n =
     (if n < 10 then [''0123456789'' ! n]
      else digits (n div 10) @ [''0123456789'' ! (n mod 10)])"

datatype number = NaN | Infinite bool | Finite bool nat int

fun strip_zeros :: "nat \<Rightarrow> nat" where
  "strip_zeros s = (if s \<noteq> 0 \<and> s mod 10 = 0 then strip_zeros (s div 10) else s)"

definition positiveToString :: "string \<Rightarrow> int \<Rightarrow> string" where
  "positiveToString ds n =
     (let k = int (length ds)
      in if - 5 \<le> n \<and> n \<le> 21
         then
           (if k \<le> n then ds @ replicate (nat (n - k)) CHR ''0''
            else if 0 < n then take (nat n) ds @ ''.'' @ drop (nat n) ds
            else ''0.'' @ replicate (nat (- n)) CHR ''0'' @ ds)
         else
           (let e = n - 1;
                exponent = (if e < 0 then ''-'' else ''+'') @ digits (nat \<bar>e\<bar>)
            in if k = 1 then ds @ ''e'' @ exponent
               else take 1 ds @ ''.'' @ drop 1 ds @ ''e'' @ exponent))"

definition numberToString :: "number \<Rightarrow> string" where
  "numberToString x =
     (case x of
        NaN \<Rightarrow> ''NaN''
      | Infinite neg \<Rightarrow> (if neg then ''-Infinity'' else ''Infinity'')
      | Finite neg s n \<Rightarrow>
          if s = 0 then ''0''
          else (if neg then ''-'' else '''') @ positiveToString (digits (strip_zeros s)) n)"

definition Integer :: "int \<Rightarrow> number" where
  "Integer i = Finite (i < 0) (nat \<bar>i\<bar>) (int (length (digits (nat \<bar>i\<bar>))))"

section \<open>types.ts\<close>

record ExamSettings =
  topic :: string
  className :: string
  board :: string
  studentName :: string
  language :: string
  totalMarks :: number
  duration :: number
  mcqCount :: number
  shortCount :: number
  longCount :: number

section \<open>The prompts of the two stages\<close>

definition analysisPrompt :: "ExamSettings \<Rightarrow> string" where
  "analysisPrompt settings =
     ''You are an expert educator. Analyze the provided images of textbook pages and exercises. Identify the main subject, specific topic, key concepts, and common question formats (e.g., definitions, problem-solving, diagrams, true/false) relevant to generating an exam paper for Class ''
     @ className settings @ '', Board '' @ board settings
     @ ''. Return this information as a concise text summary of about 200 words, clearly stating the main topic and key areas covered.''"

definition generationPrompt :: "ExamSettings \<Rightarrow> string \<Rightarrow> string" where
  "generationPrompt settings analysisSummary =
     ''Based on the following topic: \"'' @ topic settings
     @ ''\", class \"'' @ className settings
     @ ''\", board \"'' @ board settings
     @ ''\", and the following analysis of textbook content: \"'' @ analysisSummary
     @ ''\", generate an exam paper with the specified number of questions for each type.\<newline>\<newline>    **Instructions:**\<newline>    1.  Generate exactly ''
     @ numberToString (mcqCount settings)
     @ '' Multiple Choice Questions. Each MCQ must have 4 distinct options (A, B, C, D) and explicitly state the correct answer at the end of the question (e.g., 'Correct Answer: A').\<newline>    2.  Generate exactly ''
     @ numberToString (shortCount settings)
     @ '' Short Answer Questions.\<newline>    3.  Generate exactly ''
     @ numberToString (longCount settings)
     @ '' Long Answer Questions.\<newline>    4.  Ensure questions are relevant to the provided topic and insights, and are appropriate for the specified class and board.\<newline>    5.  Format the output clearly, separating each question type with a heading.\<newline>    6.  Use the specified language: ''
     @ language settings
     @ ''.\<newline>\<newline>    **Example Format:**\<newline>    ## Multiple Choice Questions (MCQs)\<newline>    1.  What is [concept A]?\<newline>        A) Option 1\<newline>        B) Option 2\<newline>        C) Option 3\<newline>        D) Option 4\<newline>        Correct Answer: B\<newline>\<newline>    ## Short Answer Questions\<newline>    1.  Explain [concept B].\<newline>\<newline>    ## Long Answer Questions\<newline>    1.  Discuss [topic C] in detail.\<newline>    ''"

section \<open>Image files, base64 and data URLs\<close>

text \<open>
  A \<^verbatim>\<open>File\<close> is a name, a MIME type (\<^verbatim>\<open>file.type\<close>) and its bytes.
\<close>

type_synonym byte = "8 word"

record File =
  fname :: string
  ftype :: string
  fbytes :: "byte list"

text \<open>
  The platform's base64 (RFC 4648, with padding), as \<^verbatim>\<open>readAsDataURL\<close> writes it: three
  bytes become four characters of the alphabet; a last group of one or two bytes is
  padded with \<open>=\<close>.  \<open>base64_decode\<close> is the inverse transcription.
\<close>

definition b64chars :: string where
  "b64chars = ''ABCDEFGHIJKLMNOPQRSTUVWXYZabcdefghijklmnopqrstuvwxyz0123456789+/''"

fun base64_encode :: "byte list \<Rightarrow> string" where
  "base64_encode [] = []"
| "base64_encode [a] =
     (let n = unat a * 65536
      in [b64chars ! (n div 262144), b64chars ! (n div 4096 mod 64), CHR ''='', CHR ''=''])"
| "base64_encode [a, b] =
     (let n = unat a * 65536 + unat b * 256
      in [b64chars ! (n div 262144), b64chars ! (n div 4096 mod 64),
          b64chars ! (n div 64 mod 64), CHR ''=''])"
| "base64_encode (a # b # c # rest) =
     (let n = unat a * 65536 + unat b * 256 + unat c
      in [b64chars ! (n div 262144), b64chars ! (n div 4096 mod 64),
          b64chars ! (n div 64 mod 64), b64chars ! (n mod 64)])
     @ base64_encode rest"

fun index_of :: "'a \<Rightarrow> 'a list \<Rightarrow> nat option" where
  "index_of c [] = None"
| "index_of c (x # xs) = (if x = c then Some 0 else map_option Suc (index_of c xs))"

definition b64value :: "char \<Rightarrow> nat option" where
  "b64value c = index_of c b64chars"

fun base64_decode :: "string \<Rightarrow> byte list option" where
  "base64_decode [] = Some []"
| "base64_decode (w # x # y # z # rest) =
     (case (b64value w, b64value x) of
        (Some p, Some q) \<Rightarrow>
          if rest = [] \<and> y = CHR ''='' \<and> z = CHR ''=''
          then Some [of_nat ((p * 262144 + q * 4096) div 65536)]
          else
            (case b64value y of
               None \<Rightarrow> None
             | Some r \<Rightarrow>
                 if rest = [] \<and> z = CHR ''=''
                 then
                   (let n = p * 262144 + q * 4096 + r * 64
                    in Some [of_nat (n div 65536), of_nat (n div 256 mod 256)])
                 else
                   (case b64value z of
                      None \<Rightarrow> None
                    | Some s \<Rightarrow>
                        (let n = p * 262144 + q * 4096 + r * 64 + s
                         in map_option
                              (\<lambda>bs. of_nat (n div 65536) # of_nat (n div 256 mod 256)
                                      # of_nat (n mod 256) # bs)
                              (base64_decode rest))))
      | _ \<Rightarrow> None)"
| "base64_decode _ = None"

text \<open>
  \<open>split_on c s\<close> is \<^verbatim>\<open>s.split(c)\<close> for a one-character separator: the pieces between the
  separators, in order (one piece, the whole string, when there is no separator).
  \<open>at_index xs i\<close> is \<^verbatim>\<open>xs[i]\<close>, \<^verbatim>\<open>undefined\<close> (None) out of range.
\<close>

fun split_on :: "char \<Rightarrow> string \<Rightarrow> string list" where
  "split_on c [] = [[]]"
| "split_on c (x # xs) =
     (if x = c then [] # split_on c xs
      else (case split_on c xs of [] \<Rightarrow> [[x]] | s # ss \<Rightarrow> (x # s) # ss))"

definition at_index :: "'a list \<Rightarrow> nat \<Rightarrow> 'a option" where
  "at_index xs i = (if i < length xs then Some (xs ! i) else None)"

section \<open>Thrown values, promises, the environment\<close>

text \<open>
  A thrown value is an object with the name of its constructor and its \<^verbatim>\<open>message\<close>
  property, if it has one.  \<open>new_Error m\<close> is \<^verbatim>\<open>new Error(m)\<close>.  Reading a property of
  \<^verbatim>\<open>undefined\<close> throws a TypeError that names the property.
\<close>

datatype thrown = Thrown (constructor_name: string) (message: "string option")

definition new_Error :: "string \<Rightarrow> thrown" where
  "new_Error m = Thrown ''Error'' (Some m)"

definition TypeError_reading :: "string \<Rightarrow> thrown" where
  "TypeError_reading property =
     Thrown ''TypeError''
       (Some (''Cannot read properties of undefined (reading ''
              @ [CHR 0x27] @ property @ [CHR 0x27] @ '')''))"

text \<open>
  \<open>truthy\<close> is the truth value of an optional string in a condition: \<^verbatim>\<open>undefined\<close> and the
  empty string are falsy.  \<open>or_else v d\<close> is \<^verbatim>\<open>v || d\<close>.
\<close>

definition truthy :: "string option \<Rightarrow> bool" where
  "truthy v = (case v of None \<Rightarrow> False | Some s \<Rightarrow> s \<noteq> [])"

definition or_else :: "string option \<Rightarrow> string \<Rightarrow> string" where
  "or_else v d = (case v of None \<Rightarrow> d | Some s \<Rightarrow> if s = [] then d else s)"

text \<open>
  A settled promise is the time at which it settled and its outcome (\<open>Inl\<close> rejected,
  \<open>Inr\<close> fulfilled).  \<^verbatim>\<open>Promise.all\<close> is rejected with the reason of the promise that was
  rejected first in time (of two rejected at the same time, the one earlier in the list);
  when none is rejected it is fulfilled with the values in the order of the list.
\<close>

fun rejections :: "(nat \<times> ('e + 'a)) list \<Rightarrow> (nat \<times> 'e) list" where
  "rejections [] = []"
| "rejections ((t, Inl e) # ps) = (t, e) # rejections ps"
| "rejections ((t, Inr v) # ps) = rejections ps"

fun fulfilments :: "(nat \<times> ('e + 'a)) list \<Rightarrow> 'a list" where
  "fulfilments [] = []"
| "fulfilments ((t, Inl e) # ps) = fulfilments ps"
| "fulfilments ((t, Inr v) # ps) = v # fulfilments ps"

fun earliest :: "nat \<times> 'e \<Rightarrow> (nat \<times> 'e) list \<Rightarrow> nat \<times> 'e" where
  "earliest r [] = r"
| "earliest r (x # xs) = earliest (if fst x < fst r then x else r) xs"

definition Promise_all :: "(nat \<times> (thrown + 'a)) list \<Rightarrow> thrown + 'a list" where
  "Promise_all ps =
     (case rejections ps of
        [] \<Rightarrow> Inr (fulfilments ps)
      | r # rs \<Rightarrow> Inl (snd (earliest r rs)))"

record ImagePart =
  mimeType :: string
  data :: "string option"

datatype part = TextPart string | InlineData ImagePart

record GenerateContentConfig =
  maxOutputTokens :: int
  temperature :: "rat option"
  topP :: "rat option"
  topK :: "int option"

record GenerateContentParameters =
  model :: string
  contents :: "part list"
  config :: GenerateContentConfig

record GenerateContentResponse =
  response_text :: "string option"

text \<open>
  The host capability \<^verbatim>\<open>window.aistudio\<close>: \<open>openSelectKey\<close> is what a call of it does,
  None when it resolves, \<open>Some e\<close> when it throws \<open>e\<close>.
\<close>

record AIStudio =
  openSelectKey :: "thrown option"

text \<open>
  The environment of one invocation: the credential \<^verbatim>\<open>process.env.API_KEY\<close>; for each
  file, when its read settles and with what (\<open>Inl\<close> the event given to \<^verbatim>\<open>onerror\<close>,
  \<open>Inr\<close> the \<^verbatim>\<open>result\<close> at \<^verbatim>\<open>onload\<close>); the generative service, which for a client (its key)
  and a request throws or returns a response; and \<^verbatim>\<open>window.aistudio\<close>, which may be absent.
\<close>

record env =
  API_KEY :: "string option"
  readAsDataURL :: "File \<Rightarrow> nat \<times> (thrown + string)"
  generateContent :: "string \<Rightarrow> GenerateContentParameters \<Rightarrow> thrown + GenerateContentResponse"
  aistudio :: "AIStudio option"

text \<open>What an invocation does that can be seen from outside, in the order it happens.\<close>

datatype event =
    ReadStarted File
  | Request GenerateContentParameters
  | Settled "thrown + GenerateContentResponse"
  | ConsoleError string thrown
  | ConsoleLog string string
  | OpenSelectKey
  | CoreCalled "File list" ExamSettings

section \<open>services/geminiService.ts\<close>

definition getGeminiClient :: "env \<Rightarrow> thrown + string" where
  "getGeminiClient env =
     (if \<not> truthy (API_KEY env)
      then Inl (new_Error ''API_KEY is not defined in the environment variables.'')
      else Inr (the (API_KEY env)))"

definition encodeImage :: "env \<Rightarrow> File \<Rightarrow> nat \<times> (thrown + ImagePart)" where
  "encodeImage env file =
     (case readAsDataURL env file of
        (t, Inl error) \<Rightarrow> (t, Inl error)
      | (t, Inr result) \<Rightarrow>
          (t, Inr \<lparr>mimeType = ftype file, data = at_index (split_on CHR '','' result) 1\<rparr>))"

definition analysisRequest :: "ExamSettings \<Rightarrow> ImagePart list \<Rightarrow> GenerateContentParameters" where
  "analysisRequest settings imageParts =
     \<lparr>model = ''gemini-2.5-flash-image'',
      contents = TextPart (analysisPrompt settings) # map InlineData imageParts,
      config = \<lparr>maxOutputTokens = 500, temperature = None, topP = None, topK = None\<rparr>\<rparr>"

definition generationRequest :: "ExamSettings \<Rightarrow> string \<Rightarrow> GenerateContentParameters" where
  "generationRequest settings analysisSummary =
     \<lparr>model = ''gemini-2.5-pro'',
      contents = [TextPart (generationPrompt settings analysisSummary)],
      config = \<lparr>maxOutputTokens = 4096, temperature = Some (7 / 10),
                topP = Some (95 / 100), topK = Some 64\<rparr>\<rparr>"

text \<open>The \<^verbatim>\<open>catch\<close> block of the composition call; \<open>tr\<close> is what has happened so far.\<close>

definition generationCatch :: "env \<Rightarrow> event list \<Rightarrow> thrown \<Rightarrow> event list \<times> (thrown + string option)" where
  "generationCatch env tr error =
     (let tr1 = tr @ [ConsoleError ''Error during question generation:'' error]
      in if truthy (message error)
            \<and> includes_str (the (message error)) ''Requested entity was not found.''
         then
           (case aistudio env of
              None \<Rightarrow> (tr1, Inl (TypeError_reading ''openSelectKey''))
            | Some host \<Rightarrow>
                (case openSelectKey host of
                   Some e \<Rightarrow> (tr1 @ [OpenSelectKey], Inl e)
                 | None \<Rightarrow>
                     (tr1 @ [OpenSelectKey],
                      Inl (new_Error ''API key might be invalid or not selected. Please select a valid key.''))))
         else
           (tr1,
            Inl (new_Error (or_else (message error)
                   ''Failed to generate questions. Please check your prompt or try again.''))))"

definition analyzeImagesAndGenerateQuestions ::
  "env \<Rightarrow> File list \<Rightarrow> ExamSettings \<Rightarrow> event list \<times> (thrown + string option)" where
  "analyzeImagesAndGenerateQuestions env images settings =
     (case getGeminiClient env of
        Inl e \<Rightarrow> ([], Inl e)
      | Inr ai \<Rightarrow>
          (let tr0 = map ReadStarted images
           in case Promise_all (map (encodeImage env) images) of
                Inl e \<Rightarrow> (tr0, Inl e)
              | Inr imageParts \<Rightarrow>
                  (let areq = analysisRequest settings imageParts;
                       tr1 = tr0 @ [Request areq]
                   in case generateContent env ai areq of
                        Inl error \<Rightarrow>
                          (tr1 @ [Settled (Inl error),
                                  ConsoleError ''Error during image analysis:'' error],
                           Inl (new_Error ''Failed to analyze images. Please try again.''))
                      | Inr analysisResponse \<Rightarrow>
                          (let analysisSummary =
                                 or_else (response_text analysisResponse)
                                   ''No specific insights extracted from images.'';
                               tr2 = tr1 @ [Settled (Inr analysisResponse),
                                            ConsoleLog ''Image Analysis Summary:'' analysisSummary];
                               greq = generationRequest settings analysisSummary;
                               tr3 = tr2 @ [Request greq]
                           in case generateContent env ai greq of
                                Inl error \<Rightarrow> generationCatch env (tr3 @ [Settled (Inl error)]) error
                              | Inr generationResponse \<Rightarrow>
                                  (tr3 @ [Settled (Inr generationResponse)],
                                   Inr (response_text generationResponse))))))"

section \<open>App.tsx: the handler of the Generate button\<close>

record GeneratedExam =
  htmlContent :: "string option"

record app_state =
  settings :: ExamSettings
  uploadedImages :: "File list"
  loading :: bool
  error :: "string option"
  generatedExam :: "GeneratedExam option"
  showApiKeyPrompt :: bool
  examHtmlRef :: "string option"

text \<open>
  \<open>generateExam\<close> returns the state after the handler, what happened, and the value the
  handler itself threw, if any (reading \<^verbatim>\<open>includes\<close> of a missing message throws inside the
  \<^verbatim>\<open>catch\<close> block; \<^verbatim>\<open>finally\<close> still clears \<open>loading\<close>).
\<close>

definition generateExam :: "env \<Rightarrow> app_state \<Rightarrow> app_state \<times> event list \<times> thrown option" where
  "generateExam env st =
     (let st1 = st\<lparr>error := None, loading := True, generatedExam := None\<rparr>
      in if length (uploadedImages st) = 0
         then (st1\<lparr>error := Some ''Please upload at least one image.'', loading := False\<rparr>, [], None)
         else
           (case analyzeImagesAndGenerateQuestions env (uploadedImages st) (settings st) of
              (tr, Inr examContent) \<Rightarrow>
                (st1\<lparr>examHtmlRef := examContent,
                     generatedExam := Some \<lparr>htmlContent = examContent\<rparr>,
                     loading := False\<rparr>,
                 CoreCalled (uploadedImages st) (settings st) # tr, None)
            | (tr, Inl err) \<Rightarrow>
                (let tr1 = CoreCalled (uploadedImages st) (settings st) # tr
                             @ [ConsoleError ''Failed to generate exam:'' err]
                 in case message err of
                      None \<Rightarrow> (st1\<lparr>loading := False\<rparr>, tr1, Some (TypeError_reading ''includes''))
                    | Some m \<Rightarrow>
                        (st1\<lparr>showApiKeyPrompt :=
                               (if includes_str m ''API key might be invalid'' then True
                                else showApiKeyPrompt st1),
                             error := Some (or_else (Some m)
                               ''An unexpected error occurred during exam generation.''),
                             loading := False\<rparr>,
                         tr1, None))))"

section \<open>Notions used in the statements\<close>

text \<open>
  A composition request is a request to the model of the second stage.  \<open>fallbackSummary\<close>
  names the literal that stands in for a missing or empty analysis text.
\<close>

definition isCompositionRequest :: "event \<Rightarrow> bool" where
  "isCompositionRequest ev = (case ev of Request q \<Rightarrow> model q = ''gemini-2.5-pro'' | _ \<Rightarrow> False)"

definition fallbackSummary :: string where
  "fallbackSummary = ''No specific insights extracted from images.''"

text \<open>
  A prompt carries the instructions of the settings when it contains the three count
  instructions, each with the rendering of its count, and names the language to use.
\<close>

definition carriesInstructions :: "string \<Rightarrow> ExamSettings \<Rightarrow> bool" where
  "carriesInstructions prompt cfg \<longleftrightarrow>
     includes_str prompt
       (''exactly '' @ numberToString (mcqCount cfg) @ '' Multiple Choice Questions'')
     \<and> includes_str prompt
       (''exactly '' @ numberToString (shortCount cfg) @ '' Short Answer Questions'')
     \<and> includes_str prompt
       (''exactly '' @ numberToString (longCount cfg) @ '' Long Answer Questions'')
     \<and> includes_str prompt (''Use the specified language: '' @ language cfg @ ''.'')"

section \<open>Example inputs\<close>

text \<open>
  \<open>initialSettings\<close> is the settings record of \<^verbatim>\<open>App.tsx\<close>.  The other constants are inputs
  on which the statements below are instantiated: two small image files, a reader that
  answers with the data URL of a file, and environments in which the service answers,
  fails, a file cannot be read, or the key is missing.
\<close>

definition initialSettings :: ExamSettings where
  "initialSettings =
     \<lparr>topic = ''Biology - Cell Structure'', className = ''Grade 9'', board = ''CBSE'',
      studentName = '''', language = ''English'', totalMarks = Integer 50,
      duration = Integer 60, mcqCount = Integer 5, shortCount = Integer 3,
      longCount = Integer 2\<rparr>"

definition example_page :: File where
  "example_page = \<lparr>fname = ''page1.png'', ftype = ''image/png'', fbytes = [0x89, 0x50, 0x4E, 0x47, 0x0D]\<rparr>"

definition example_photo :: File where
  "example_photo = \<lparr>fname = ''page2.jpg'', ftype = ''image/jpeg'', fbytes = [0xFF, 0xD8, 0xFF, 0xE0]\<rparr>"

definition platform_read :: "File \<Rightarrow> nat \<times> (thrown + string)" where
  "platform_read f =
     (length (fbytes f), Inr (''data:'' @ ftype f @ '';base64,'' @ base64_encode (fbytes f)))"

definition example_env :: env where
  "example_env =
     \<lparr>API_KEY = Some ''key'',
      readAsDataURL = platform_read,
      generateContent =
        (\<lambda>ai req. if model req = ''gemini-2.5-flash-image''
                   then Inr \<lparr>response_text = Some ''''\<rparr>
                   else Inr \<lparr>response_text = Some ''## Multiple Choice Questions (MCQs)''\<rparr>),
      aistudio = None\<rparr>"

definition env_analysis_down :: env where
  "env_analysis_down =
     example_env\<lparr>generateContent :=
       (\<lambda>ai req. Inl (Thrown ''ApiError'' (Some ''503 Service Unavailable'')))\<rparr>"

definition env_unreadable :: env where
  "env_unreadable =
     example_env\<lparr>readAsDataURL :=
       (\<lambda>f. if fname f = ''page2.jpg'' then (1, Inl (Thrown ''ProgressEvent'' None))
            else platform_read f)\<rparr>"

definition env_no_key :: env where
  "env_no_key = example_env\<lparr>API_KEY := None\<rparr>"

definition env_not_found :: env where
  "env_not_found =
     example_env\<lparr>generateContent :=
       (\<lambda>ai req. if model req = ''gemini-2.5-flash-image''
                  then Inr \<lparr>response_text = Some ''Cell structure.''\<rparr>
                  else Inl (Thrown ''ApiError'' (Some ''Requested entity was not found.'')))\<rparr>"

definition example_state :: app_state where
  "example_state =
     \<lparr>settings = initialSettings, uploadedImages = [], loading = False, error = None,
      generatedExam = None, showApiKeyPrompt = False, examHtmlRef = Some ''''\<rparr>"

section \<open>Facts about the rendering of numbers\<close>

declare digits.simps [simp del] strip_zeros.simps [simp del]

lemma digits_small: "n < 10 \<Longrightarrow> digits n = [''0123456789'' ! n]"
  by (subst digits.simps) simp

lemma digits_step: "10 \<le> n \<Longrightarrow> digits n = digits (n div 10) @ [''0123456789'' ! (n mod 10)]"
  by (subst digits.simps) simp

lemma length_digits_le: "n < 10 ^ d \<Longrightarrow> 0 < d \<Longrightarrow> length (digits n) \<le> d"
proof (induction d arbitrary: n)
  case 0
  then show ?case by simp
next
  case (Suc d)
  show ?case
  proof (cases "n < 10")
    case True
    then show ?thesis by (simp add: digits_small)
  next
    case False
    then have d: "0 < d" using Suc.prems by (cases d) auto
    have "n div 10 < 10 ^ d" using Suc.prems by (simp add: less_mult_imp_div_less)
    then have "length (digits (n div 10)) \<le> d" using d by (rule Suc.IH)
    with False show ?thesis by (simp add: digits_step)
  qed
qed

lemma digits_strip_zeros:
  "s \<noteq> 0 \<Longrightarrow>
   digits s = digits (strip_zeros s)
                @ replicate (length (digits s) - length (digits (strip_zeros s))) CHR ''0''
   \<and> length (digits (strip_zeros s)) \<le> length (digits s)"
proof (induction s rule: strip_zeros.induct)
  case (1 s)
  show ?case
  proof (cases "s mod 10 = 0")
    case False
    then have "strip_zeros s = s" by (subst strip_zeros.simps) simp
    then show ?thesis by simp
  next
    case True
    have "s = 10 * (s div 10)" using True mult_div_mod_eq [of 10 s] by simp
    with "1.prems" have nz: "s div 10 \<noteq> 0" by (cases "s div 10 = 0") auto
    then have ge: "10 \<le> s" by (simp add: div_eq_0_iff)
    have st: "strip_zeros s = strip_zeros (s div 10)"
      using True "1.prems" by (subst strip_zeros.simps) simp
    have ds: "digits s = digits (s div 10) @ ''0''"
      using ge True by (simp add: digits_step)
    from "1.IH" [OF _ nz] "1.prems" True
    have ih: "digits (s div 10) = digits (strip_zeros (s div 10))
                @ replicate (length (digits (s div 10)) - length (digits (strip_zeros (s div 10)))) CHR ''0''"
      and le: "length (digits (strip_zeros (s div 10))) \<le> length (digits (s div 10))"
      by simp_all
    define m where "m = length (digits (s div 10)) - length (digits (strip_zeros (s div 10)))"
    have len: "length (digits s) - length (digits (strip_zeros s)) = Suc m"
      unfolding st ds m_def using le by simp
    have "digits s = (digits (strip_zeros (s div 10)) @ replicate m CHR ''0'') @ ''0''"
      unfolding ds m_def using ih by simp
    also have "\<dots> = digits (strip_zeros s) @ replicate (Suc m) CHR ''0''"
      unfolding st by (simp add: replicate_append_same)
    finally have "digits s = digits (strip_zeros s)
                @ replicate (length (digits s) - length (digits (strip_zeros s))) CHR ''0''"
      unfolding len .
    moreover have "length (digits (strip_zeros s)) \<le> length (digits s)"
      unfolding st ds using le by simp
    ultimately show ?thesis by simp
  qed
qed

lemma numberToString_Integer:
  assumes "\<bar>i\<bar> \<le> 9007199254740991"
  shows "numberToString (Integer i) = (if i < 0 then ''-'' else '''') @ digits (nat \<bar>i\<bar>)"
proof (cases "i = 0")
  case True
  then show ?thesis by (simp add: numberToString_def Integer_def digits_small)
next
  case False
  define s where "s = nat \<bar>i\<bar>"
  have s: "s \<noteq> 0" using False by (simp add: s_def)
  have "s < 10 ^ 16" using assms by (simp add: s_def)
  then have n: "length (digits s) \<le> 16" by (rule length_digits_le) simp
  from digits_strip_zeros [OF s]
  have d: "digits s = digits (strip_zeros s)
                @ replicate (length (digits s) - length (digits (strip_zeros s))) CHR ''0''"
    and le: "length (digits (strip_zeros s)) \<le> length (digits s)"
    by simp_all
  have "positiveToString (digits (strip_zeros s)) (int (length (digits s))) = digits s"
    using n le d by (simp add: positiveToString_def Let_def nat_diff_distrib' flip: of_nat_diff)
  then show ?thesis using s by (simp add: numberToString_def Integer_def flip: s_def)
qed

lemma numberToString_examples:
  "numberToString (Integer 0) = ''0''"
  "numberToString (Integer 2) = ''2''"
  "numberToString (Integer 3) = ''3''"
  "numberToString (Integer 5) = ''5''"
  by (simp_all add: numberToString_Integer digits_small)

lemma numberToString_special:
  "numberToString NaN = ''NaN''"
  "numberToString (Infinite False) = ''Infinity''"
  "numberToString (Finite False 1 22) = ''1e+21''"
  "numberToString (Finite False 1 21) = ''100000000000000000000''"
  "numberToString (Finite False 25 1) = ''2.5''"
  "numberToString (Finite False 1 (- 6)) = ''1e-7''"
proof -
  have d: "digits (Suc 0) = ''1''" "digits 7 = ''7''" "digits 25 = ''25''" "digits 21 = ''21''"
    by (simp_all add: digits_small digits_step)
  have keep: "strip_zeros n = n" if "n mod 10 \<noteq> 0" for n
    using that by (subst strip_zeros.simps) simp
  have s: "strip_zeros (Suc 0) = Suc 0" "strip_zeros 25 = 25"
    by (simp_all add: keep)
  show "numberToString NaN = ''NaN''" "numberToString (Infinite False) = ''Infinity''"
    by (simp_all add: numberToString_def)
  show "numberToString (Finite False 1 22) = ''1e+21''"
    by (simp add: numberToString_def positiveToString_def Let_def s d)
  show "numberToString (Finite False 1 21) = ''100000000000000000000''"
    by (simp add: numberToString_def positiveToString_def Let_def s d eval_nat_numeral)
  show "numberToString (Finite False 25 1) = ''2.5''"
    by (simp add: numberToString_def positiveToString_def Let_def s d)
  show "numberToString (Finite False 1 (- 6)) = ''1e-7''"
    by (simp add: numberToString_def positiveToString_def Let_def s d)
qed

section \<open>Facts about strings\<close>

lemma includes_iff: "includes_str s t \<longleftrightarrow> (\<exists>p q. s = p @ t @ q)"
proof (induction s)
  case Nil
  show ?case by auto
next
  case (Cons c cs)
  show ?case
  proof
    assume "includes_str (c # cs) t"
    then consider "prefix t (c # cs)" | "includes_str cs t" by auto
    then show "\<exists>p q. c # cs = p @ t @ q"
    proof cases
      case 1
      then obtain q where "c # cs = t @ q" by (auto simp: prefix_def)
      then have "c # cs = [] @ t @ q" by simp
      then show ?thesis by blast
    next
      case 2
      with Cons.IH obtain p q where "cs = p @ t @ q" by blast
      then have "c # cs = (c # p) @ t @ q" by simp
      then show ?thesis by blast
    qed
  next
    assume "\<exists>p q. c # cs = p @ t @ q"
    then obtain p q where pq: "c # cs = p @ t @ q" by blast
    show "includes_str (c # cs) t"
    proof (cases p)
      case Nil
      with pq have "prefix t (c # cs)" by (simp add: prefix_def)
      then show ?thesis by simp
    next
      case (Cons a p')
      with pq have "cs = p' @ t @ q" by simp
      with Cons.IH have "includes_str cs t" by blast
      then show ?thesis by simp
    qed
  qed
qed

lemma includes_middle: "includes_str (p @ t @ q) t"
  unfolding includes_iff by blast

lemma generationPrompt_shape:
  obtains A B C D E where
    "generationPrompt s a =
       A @ (''exactly '' @ numberToString (mcqCount s) @ '' Multiple Choice Questions'') @ B
         @ (''exactly '' @ numberToString (shortCount s) @ '' Short Answer Questions'') @ C
         @ (''exactly '' @ numberToString (longCount s) @ '' Long Answer Questions'') @ D
         @ (''Use the specified language: '' @ language s @ ''.'') @ E"
proof
  show "generationPrompt s a =
       (''Based on the following topic: \"'' @ topic s
     @ ''\", class \"'' @ className s
     @ ''\", board \"'' @ board s
     @ ''\", and the following analysis of textbook content: \"'' @ a
     @ ''\", generate an exam paper with the specified number of questions for each type.\<newline>\<newline>    **Instructions:**\<newline>    1.  Generate '')
       @ (''exactly '' @ numberToString (mcqCount s) @ '' Multiple Choice Questions'')
       @ ''. Each MCQ must have 4 distinct options (A, B, C, D) and explicitly state the correct answer at the end of the question (e.g., 'Correct Answer: A').\<newline>    2.  Generate ''
       @ (''exactly '' @ numberToString (shortCount s) @ '' Short Answer Questions'')
       @ ''.\<newline>    3.  Generate ''
       @ (''exactly '' @ numberToString (longCount s) @ '' Long Answer Questions'')
       @ ''.\<newline>    4.  Ensure questions are relevant to the provided topic and insights, and are appropriate for the specified class and board.\<newline>    5.  Format the output clearly, separating each question type with a heading.\<newline>    6.  ''
       @ (''Use the specified language: '' @ language s @ ''.'')
       @ ''\<newline>\<newline>    **Example Format:**\<newline>    ## Multiple Choice Questions (MCQs)\<newline>    1.  What is [concept A]?\<newline>        A) Option 1\<newline>        B) Option 2\<newline>        C) Option 3\<newline>        D) Option 4\<newline>        Correct Answer: B\<newline>\<newline>    ## Short Answer Questions\<newline>    1.  Explain [concept B].\<newline>\<newline>    ## Long Answer Questions\<newline>    1.  Discuss [topic C] in detail.\<newline>    ''"
    by (simp add: generationPrompt_def)
qed

lemma generationPrompt_includes:
  "includes_str (generationPrompt s a)
     (''exactly '' @ numberToString (mcqCount s) @ '' Multiple Choice Questions'')"
  "includes_str (generationPrompt s a)
     (''exactly '' @ numberToString (shortCount s) @ '' Short Answer Questions'')"
  "includes_str (generationPrompt s a)
     (''exactly '' @ numberToString (longCount s) @ '' Long Answer Questions'')"
  "includes_str (generationPrompt s a) (''Use the specified language: '' @ language s @ ''.'')"
proof -
  let ?M = "''exactly '' @ numberToString (mcqCount s) @ '' Multiple Choice Questions''"
  let ?K = "''exactly '' @ numberToString (shortCount s) @ '' Short Answer Questions''"
  let ?L = "''exactly '' @ numberToString (longCount s) @ '' Long Answer Questions''"
  let ?U = "''Use the specified language: '' @ language s @ ''.''"
  obtain A B C D E where
    shape: "generationPrompt s a = A @ ?M @ B @ ?K @ C @ ?L @ D @ ?U @ E"
    by (rule generationPrompt_shape)
  show "includes_str (generationPrompt s a) ?M"
    unfolding shape by (rule includes_middle)
  have "A @ ?M @ B @ ?K @ C @ ?L @ D @ ?U @ E = (A @ ?M @ B) @ ?K @ (C @ ?L @ D @ ?U @ E)"
    by (simp only: append_assoc)
  then show "includes_str (generationPrompt s a) ?K"
    unfolding shape by (simp only: includes_middle)
  have "A @ ?M @ B @ ?K @ C @ ?L @ D @ ?U @ E = (A @ ?M @ B @ ?K @ C) @ ?L @ (D @ ?U @ E)"
    by (simp only: append_assoc)
  then show "includes_str (generationPrompt s a) ?L"
    unfolding shape by (simp only: includes_middle)
  have "A @ ?M @ B @ ?K @ C @ ?L @ D @ ?U @ E = (A @ ?M @ B @ ?K @ C @ ?L @ D) @ ?U @ E"
    by (simp only: append_assoc)
  then show "includes_str (generationPrompt s a) ?U"
    unfolding shape by (simp only: includes_middle)
qed

section \<open>Facts about base64 and data URLs\<close>

lemma sextets: fixes n :: nat
  shows "(n div 262144) * 262144 + (n div 4096 mod 64) * 4096 + (n div 64 mod 64) * 64 + n mod 64 = n"
proof -
  have a: "n div 4096 = n div 64 div 64" using div_mult2_eq [of n 64 64] by simp
  have b: "n div 262144 = n div 64 div 64 div 64" using div_mult2_eq [of n 4096 64] a by simp
  define A B C D where "A = n div 64 div 64 div 64" and "B = n div 64 div 64 mod 64"
    and "C = n div 64 mod 64" and "D = n mod 64"
  have h1: "n = n div 64 * 64 + D" unfolding D_def by simp
  have h2: "n div 64 = n div 64 div 64 * 64 + C" unfolding C_def by simp
  have h3: "n div 64 div 64 = A * 64 + B" unfolding A_def B_def by simp
  have "n = ((A * 64 + B) * 64 + C) * 64 + D"
    using h1 h2 h3 by metis
  then have "A * 262144 + B * 4096 + C * 64 + D = n" by simp
  then show ?thesis unfolding a b A_def B_def C_def D_def .
qed

lemma bytes3: fixes a b c :: nat assumes "b < 256" "c < 256"
  shows "(a * 65536 + b * 256 + c) div 65536 = a" "(a * 65536 + b * 256 + c) div 256 mod 256 = b"
    "(a * 65536 + b * 256 + c) mod 256 = c"
proof -
  define m where "m = a * 256 + b"
  have e: "(a * 65536 + b * 256 + c) = m * 256 + c" unfolding m_def by simp
  have d: "(a * 65536 + b * 256 + c) div 256 = m" unfolding e using assms by simp
  have dm: "m div 256 = a" "m mod 256 = b" unfolding m_def using assms by simp_all
  show "(a * 65536 + b * 256 + c) div 256 mod 256 = b" unfolding d by (rule dm)
  show "(a * 65536 + b * 256 + c) mod 256 = c" unfolding e using assms by simp
  have "(a * 65536 + b * 256 + c) div 65536 = (a * 65536 + b * 256 + c) div 256 div 256"
    using div_mult2_eq [of "a * 65536 + b * 256 + c" 256 256] by simp
  then show "(a * 65536 + b * 256 + c) div 65536 = a" unfolding d by (simp add: dm)
qed

lemma sextet_top: fixes n :: nat shows "n < 16777216 \<Longrightarrow> n div 262144 < 64"
  by (simp add: less_mult_imp_div_less)

lemma distinct_b64chars: "distinct b64chars"
  by (simp add: b64chars_def)

lemma length_b64chars: "length b64chars = 64"
  by (simp add: b64chars_def)

lemma index_of_nth: "distinct xs \<Longrightarrow> i < length xs \<Longrightarrow> index_of (xs ! i) xs = Some i"
proof (induction xs arbitrary: i)
  case Nil
  then show ?case by simp
next
  case (Cons x xs)
  show ?case
  proof (cases i)
    case 0
    then show ?thesis by simp
  next
    case (Suc j)
    with Cons.prems have "j < length xs" "distinct xs" "xs ! j \<noteq> x" by auto
    with Cons.IH [of j] Suc show ?thesis by simp
  qed
qed

lemma b64value_nth: "i < 64 \<Longrightarrow> b64value (b64chars ! i) = Some i"
  unfolding b64value_def by (rule index_of_nth) (simp_all add: distinct_b64chars length_b64chars)

lemma b64chars_plain: "CHR ''='' \<notin> set b64chars" "CHR '','' \<notin> set b64chars"
  by (simp_all add: b64chars_def)

lemma b64chars_nth_plain:
  assumes "i < 64"
  shows "b64chars ! i \<noteq> CHR ''=''" "b64chars ! i \<noteq> CHR '',''"
proof -
  have "b64chars ! i \<in> set b64chars" using assms by (simp add: length_b64chars)
  then show "b64chars ! i \<noteq> CHR ''=''" "b64chars ! i \<noteq> CHR '',''"
    using b64chars_plain by auto
qed

lemma unat_byte: "unat (a :: byte) < 256"
  using unsigned_less [of a] by simp

lemma group_bound:
  fixes a b c :: byte
  shows "unat a * 65536 + unat b * 256 + unat c < 16777216"
  using unat_byte [of a] unat_byte [of b] unat_byte [of c] by simp

lemma decode_group:
  fixes a b c :: byte
  defines "n \<equiv> unat a * 65536 + unat b * 256 + unat c"
  shows "base64_decode (b64chars ! (n div 262144) # b64chars ! (n div 4096 mod 64)
            # b64chars ! (n div 64 mod 64) # b64chars ! (n mod 64) # rest)
         = map_option (\<lambda>bs. a # b # c # bs) (base64_decode rest)"
proof -
  have lt: "n div 262144 < 64"
    unfolding n_def by (rule sextet_top) (rule group_bound)
  have v: "b64value (b64chars ! (n div 262144)) = Some (n div 262144)"
    "b64value (b64chars ! (n div 4096 mod 64)) = Some (n div 4096 mod 64)"
    "b64value (b64chars ! (n div 64 mod 64)) = Some (n div 64 mod 64)"
    "b64value (b64chars ! (n mod 64)) = Some (n mod 64)"
    using lt by (simp_all add: b64value_nth)
  have ne: "b64chars ! (n div 64 mod 64) \<noteq> CHR ''=''" "b64chars ! (n mod 64) \<noteq> CHR ''=''"
    by (simp_all add: b64chars_nth_plain)
  have recombine: "n div 262144 * 262144 + n div 4096 mod 64 * 4096 + n div 64 mod 64 * 64 + n mod 64 = n"
    by (rule sextets)
  have bytes: "of_nat (n div 65536) = a" "of_nat (n div 256 mod 256) = b" "of_nat (n mod 256) = c"
    unfolding n_def using unat_byte [of b] unat_byte [of c] by (simp_all add: bytes3)
  show ?thesis
    by (simp add: v ne recombine bytes del: of_nat_add of_nat_mult)
qed


lemma decode_two_bytes:
  fixes a b :: byte
  defines "n \<equiv> unat a * 65536 + unat b * 256"
  shows "base64_decode [b64chars ! (n div 262144), b64chars ! (n div 4096 mod 64),
            b64chars ! (n div 64 mod 64), CHR ''='']
         = Some [a, b]"
proof -
  have n3: "n = unat a * 65536 + unat b * 256 + unat (0 :: byte)"
    unfolding n_def by simp
  have lt: "n div 262144 < 64"
    unfolding n3 by (rule sextet_top) (rule group_bound)
  have v: "b64value (b64chars ! (n div 262144)) = Some (n div 262144)"
    "b64value (b64chars ! (n div 4096 mod 64)) = Some (n div 4096 mod 64)"
    "b64value (b64chars ! (n div 64 mod 64)) = Some (n div 64 mod 64)"
    using lt by (simp_all add: b64value_nth)
  have ne: "b64chars ! (n div 64 mod 64) \<noteq> CHR ''=''"
    by (simp add: b64chars_nth_plain)
  have "n = (unat a * 1024 + unat b * 4) * 64" unfolding n_def by simp
  then have "n mod 64 = 0" by simp
  with sextets [of n]
  have recombine: "n div 262144 * 262144 + n div 4096 mod 64 * 4096 + n div 64 mod 64 * 64 = n"
    by simp
  have bytes: "of_nat (n div 65536) = a" "of_nat (n div 256 mod 256) = b"
    using bytes3 [of "unat b" 0 "unat a"] unat_byte [of b] unfolding n_def by simp_all
  show ?thesis
    by (simp add: v ne recombine bytes del: of_nat_add of_nat_mult)
qed

lemma decode_one_byte:
  fixes a :: byte
  defines "n \<equiv> unat a * 65536"
  shows "base64_decode [b64chars ! (n div 262144), b64chars ! (n div 4096 mod 64),
            CHR ''='', CHR ''='']
         = Some [a]"
proof -
  have n3: "n = unat a * 65536 + unat (0 :: byte) * 256 + unat (0 :: byte)"
    unfolding n_def by simp
  have lt: "n div 262144 < 64"
    unfolding n3 by (rule sextet_top) (rule group_bound)
  have v: "b64value (b64chars ! (n div 262144)) = Some (n div 262144)"
    "b64value (b64chars ! (n div 4096 mod 64)) = Some (n div 4096 mod 64)"
    using lt by (simp_all add: b64value_nth)
  have "n = (unat a * 1024) * 64" unfolding n_def by simp
  then have m: "n mod 64 = 0" "n div 64 = unat a * 1024" by simp_all
  have "unat a * 1024 = (unat a * 16) * 64" by simp
  then have "n div 64 mod 64 = 0" unfolding m by simp
  with sextets [of n] m
  have recombine: "n div 262144 * 262144 + n div 4096 mod 64 * 4096 = n"
    by simp
  have bytes: "of_nat (n div 65536) = a"
    unfolding n_def by simp
  show ?thesis
    by (simp add: v recombine bytes del: of_nat_add of_nat_mult)
qed

lemma base64_roundtrip: "base64_decode (base64_encode bs) = Some bs"
proof (induction bs rule: base64_encode.induct)
  case 1
  show ?case by simp
next
  case (2 a)
  show ?case using decode_one_byte [of a] by (simp add: Let_def)
next
  case (3 a b)
  show ?case using decode_two_bytes [of a b] by (simp add: Let_def)
next
  case (4 a b c rest)
  show ?case using decode_group [of a b c "base64_encode rest"] "4.IH"
    by (simp add: Let_def)
qed

lemma base64_alphabet: "set (base64_encode bs) \<subseteq> insert CHR ''='' (set b64chars)"
proof (induction bs rule: base64_encode.induct)
  case 1
  show ?case by simp
next
  case (2 a)
  have "unat a * 65536 div 262144 < 64"
    using sextet_top [of "unat a * 65536"] unat_byte [of a] by simp
  then show ?case by (simp add: Let_def length_b64chars)
next
  case (3 a b)
  have "(unat a * 65536 + unat b * 256) div 262144 < 64"
    using sextet_top [of "unat a * 65536 + unat b * 256"] unat_byte [of a] unat_byte [of b] by simp
  then show ?case by (simp add: Let_def length_b64chars)
next
  case (4 a b c rest)
  have "(unat a * 65536 + unat b * 256 + unat c) div 262144 < 64"
    by (rule sextet_top) (rule group_bound)
  with 4 show ?case by (simp add: Let_def length_b64chars)
qed

lemma base64_no_comma: "CHR '','' \<notin> set (base64_encode bs)"
  using base64_alphabet [of bs] b64chars_plain(2) by auto

lemma split_on_none: "c \<notin> set s \<Longrightarrow> split_on c s = [s]"
  by (induction s) auto

lemma split_on_first: "c \<notin> set h \<Longrightarrow> split_on c (h @ c # s) = h # split_on c s"
  by (induction h) auto

lemma strip_header:
  assumes "CHR '','' \<notin> set header" "CHR '','' \<notin> set payload"
  shows "at_index (split_on CHR '','' (header @ '','' @ payload)) 1 = Some payload"
  using assms by (simp add: split_on_first split_on_none at_index_def)

section \<open>Facts about promises\<close>

lemma set_rejections: "set (rejections ps) = {(t, e). (t, Inl e) \<in> set ps}"
  by (induction ps rule: rejections.induct) auto

lemma earliest_mem: "earliest r xs \<in> set (r # xs)"
  by (induction xs arbitrary: r) auto

lemma earliest_le_start: "fst (earliest r xs) \<le> fst r"
proof (induction xs arbitrary: r)
  case Nil
  show ?case by simp
next
  case (Cons y ys)
  have "fst (earliest (if fst y < fst r then y else r) ys) \<le> fst (if fst y < fst r then y else r)"
    by (rule Cons.IH)
  also have "\<dots> \<le> fst r" by simp
  finally show ?case by simp
qed

lemma earliest_least: "x \<in> set xs \<Longrightarrow> fst (earliest r xs) \<le> fst x"
proof (induction xs arbitrary: r)
  case Nil
  then show ?case by simp
next
  case (Cons y ys)
  let ?r = "if fst y < fst r then y else r"
  show ?case
  proof (cases "x = y")
    case True
    have "fst (earliest ?r ys) \<le> fst ?r" by (rule earliest_le_start)
    also have "\<dots> \<le> fst y" by simp
    finally show ?thesis using True by simp
  next
    case False
    with Cons.prems have "x \<in> set ys" by simp
    then have "fst (earliest ?r ys) \<le> fst x" by (rule Cons.IH)
    then show ?thesis by simp
  qed
qed

lemma Promise_all_rejected:
  assumes "(t0, Inl e0) \<in> set ps"
  shows "\<exists>t e. Promise_all ps = Inl e \<and> (t, Inl e) \<in> set ps
           \<and> (\<forall>t' e'. (t', Inl e') \<in> set ps \<longrightarrow> t \<le> t')"
proof -
  from assms have "(t0, e0) \<in> set (rejections ps)" by (simp add: set_rejections)
  then obtain r rs where rs: "rejections ps = r # rs" by (cases "rejections ps") auto
  define w where "w = earliest r rs"
  have all: "Promise_all ps = Inl (snd w)"
    using rs by (simp add: Promise_all_def w_def)
  have "w \<in> set (rejections ps)" unfolding w_def rs by (rule earliest_mem)
  then have mem: "(fst w, Inl (snd w)) \<in> set ps" by (simp add: set_rejections case_prod_beta)
  have least: "fst w \<le> t'" if "(t', Inl e') \<in> set ps" for t' e'
  proof -
    from that have "(t', e') \<in> set (rejections ps)" by (simp add: set_rejections)
    then have "(t', e') = r \<or> (t', e') \<in> set rs" unfolding rs by auto
    then show ?thesis
    proof
      assume "(t', e') = r"
      then have "fst r = t'" by auto
      then show ?thesis unfolding w_def using earliest_le_start [of r rs] by simp
    next
      assume "(t', e') \<in> set rs"
      then show ?thesis unfolding w_def using earliest_least [of "(t', e')" rs r] by simp
    qed
  qed
  show ?thesis
  proof (intro exI conjI allI impI)
    show "Promise_all ps = Inl (snd w)" by (rule all)
    show "(fst w, Inl (snd w)) \<in> set ps" by (rule mem)
    show "fst w \<le> t'" if "(t', Inl e') \<in> set ps" for t' e' using that by (rule least)
  qed
qed

lemma Promise_all_fulfilled:
  assumes "\<And>x. x \<in> set xs \<Longrightarrow> \<exists>t. g x = (t, Inr (h x))"
  shows "Promise_all (map g xs) = Inr (map h xs)"
proof -
  have "rejections (map g xs) = [] \<and> fulfilments (map g xs) = map h xs"
    using assms
  proof (induction xs)
    case Nil
    show ?case by simp
  next
    case (Cons x xs)
    from Cons.prems [of x] obtain t where "g x = (t, Inr (h x))" by auto
    moreover have "rejections (map g xs) = [] \<and> fulfilments (map g xs) = map h xs"
      by (rule Cons.IH) (simp add: Cons.prems)
    ultimately show ?case by simp
  qed
  then show ?thesis by (simp add: Promise_all_def)
qed

section \<open>The shapes of a run\<close>

lemma isCompositionRequest_simps:
  "\<not> isCompositionRequest (ReadStarted f)"
  "\<not> isCompositionRequest (Settled r)"
  "\<not> isCompositionRequest (ConsoleError l e)"
  "\<not> isCompositionRequest (ConsoleLog l txt)"
  "\<not> isCompositionRequest OpenSelectKey"
  "\<not> isCompositionRequest (CoreCalled fs cfg)"
  "\<not> isCompositionRequest (Request (analysisRequest s parts))"
  "isCompositionRequest (Request (generationRequest s summary))"
  by (simp_all add: isCompositionRequest_def analysisRequest_def generationRequest_def)

lemma unique_split:
  assumes "A @ x0 # B = pre @ x # post" and "P x"
    and "\<forall>y\<in>set A. \<not> P y" and "\<forall>y\<in>set B. \<not> P y"
  shows "pre = A \<and> x = x0 \<and> post = B"
  using assms
proof (induction A arbitrary: pre)
  case Nil
  show ?case
  proof (cases pre)
    case Nil
    with Nil.prems show ?thesis by simp
  next
    case (Cons p pre')
    with Nil.prems have "B = pre' @ x # post" by simp
    then have "x \<in> set B" by simp
    with Nil.prems show ?thesis by blast
  qed
next
  case (Cons a A)
  show ?case
  proof (cases pre)
    case Nil
    with Cons.prems have "x = a" by simp
    with Cons.prems show ?thesis by simp
  next
    case (Cons p pre')
    with Cons.prems have "A @ x0 # B = pre' @ x # post" "p = a" by simp_all
    moreover from Cons.prems have "\<forall>y\<in>set A. \<not> P y" by simp
    ultimately have "pre' = A \<and> x = x0 \<and> post = B"
      using Cons.IH Cons.prems by blast
    with \<open>p = a\<close> Cons show ?thesis by simp
  qed
qed

lemma no_split:
  assumes "A = pre @ x # post" and "P x" and "\<forall>y\<in>set A. \<not> P y"
  shows False
proof -
  from assms(1) have "x \<in> set A" by simp
  with assms show False by blast
qed

lemma or_else_nonempty: "d \<noteq> [] \<Longrightarrow> or_else v d \<noteq> []"
  by (simp add: or_else_def split: option.splits)

lemma or_else_falsy: "\<not> truthy v \<Longrightarrow> or_else v d = d"
  by (simp add: or_else_def truthy_def split: option.splits)

lemma generationCatch_trace:
  "\<exists>B. fst (generationCatch env tr e) = tr @ B \<and> (\<forall>b\<in>set B. \<not> isCompositionRequest b)"
  by (simp add: generationCatch_def Let_def isCompositionRequest_simps split: option.splits)

lemma run_no_key:
  assumes "getGeminiClient env = Inl e"
  shows "analyzeImagesAndGenerateQuestions env images s = ([], Inl e)"
  using assms by (simp add: analyzeImagesAndGenerateQuestions_def)

lemma run_encoding_failed:
  assumes "getGeminiClient env = Inr ai"
    and "Promise_all (map (encodeImage env) images) = Inl e"
  shows "analyzeImagesAndGenerateQuestions env images s = (map ReadStarted images, Inl e)"
  using assms by (simp add: analyzeImagesAndGenerateQuestions_def)

lemma run_analysis_failed:
  assumes "getGeminiClient env = Inr ai"
    and "Promise_all (map (encodeImage env) images) = Inr imageParts"
    and "generateContent env ai (analysisRequest s imageParts) = Inl e"
  shows "analyzeImagesAndGenerateQuestions env images s =
           (map ReadStarted images
              @ [Request (analysisRequest s imageParts), Settled (Inl e),
                 ConsoleError ''Error during image analysis:'' e],
            Inl (new_Error ''Failed to analyze images. Please try again.''))"
  using assms by (simp add: analyzeImagesAndGenerateQuestions_def)

lemma run_composition_failed:
  assumes "getGeminiClient env = Inr ai"
    and "Promise_all (map (encodeImage env) images) = Inr imageParts"
    and "generateContent env ai (analysisRequest s imageParts) = Inr analysisResponse"
    and "generateContent env ai
           (generationRequest s (or_else (response_text analysisResponse) fallbackSummary))
         = Inl e"
  shows "analyzeImagesAndGenerateQuestions env images s =
           generationCatch env
             (map ReadStarted images
              @ [Request (analysisRequest s imageParts), Settled (Inr analysisResponse),
                 ConsoleLog ''Image Analysis Summary:''
                   (or_else (response_text analysisResponse) fallbackSummary),
                 Request (generationRequest s
                   (or_else (response_text analysisResponse) fallbackSummary)),
                 Settled (Inl e)]) e"
  using assms by (simp add: analyzeImagesAndGenerateQuestions_def fallbackSummary_def Let_def)

lemma run_composed:
  assumes "getGeminiClient env = Inr ai"
    and "Promise_all (map (encodeImage env) images) = Inr imageParts"
    and "generateContent env ai (analysisRequest s imageParts) = Inr analysisResponse"
    and "generateContent env ai
           (generationRequest s (or_else (response_text analysisResponse) fallbackSummary))
         = Inr generationResponse"
  shows "analyzeImagesAndGenerateQuestions env images s =
           (map ReadStarted images
              @ [Request (analysisRequest s imageParts), Settled (Inr analysisResponse),
                 ConsoleLog ''Image Analysis Summary:''
                   (or_else (response_text analysisResponse) fallbackSummary),
                 Request (generationRequest s
                   (or_else (response_text analysisResponse) fallbackSummary)),
                 Settled (Inr generationResponse)],
            Inr (response_text generationResponse))"
  using assms by (simp add: analyzeImagesAndGenerateQuestions_def fallbackSummary_def Let_def)

lemma run_trace_shape:
  fixes env images s
  defines "tr \<equiv> fst (analyzeImagesAndGenerateQuestions env images s)"
  shows "(\<forall>b\<in>set tr. \<not> isCompositionRequest b)
       \<or> (\<exists>imageParts analysisResponse B.
            tr = (map ReadStarted images
                    @ [Request (analysisRequest s imageParts),
                       Settled (Inr analysisResponse),
                       ConsoleLog ''Image Analysis Summary:''
                         (or_else (response_text analysisResponse) fallbackSummary)])
                 @ Request (generationRequest s
                     (or_else (response_text analysisResponse) fallbackSummary)) # B
            \<and> (\<forall>b\<in>set B. \<not> isCompositionRequest b))"
proof (cases "getGeminiClient env")
  case (Inl e)
  then show ?thesis unfolding tr_def by (simp add: run_no_key)
next
  case (Inr ai)
  note key = this
  show ?thesis
  proof (cases "Promise_all (map (encodeImage env) images)")
    case (Inl e)
    with key show ?thesis unfolding tr_def
      by (auto simp: run_encoding_failed isCompositionRequest_simps)
  next
    case (Inr imageParts)
    note parts = this
    show ?thesis
    proof (cases "generateContent env ai (analysisRequest s imageParts)")
      case (Inl e)
      with key parts show ?thesis unfolding tr_def
        by (auto simp: run_analysis_failed isCompositionRequest_simps)
    next
      case (Inr analysisResponse)
      note analysed = this
      let ?summary = "or_else (response_text analysisResponse) fallbackSummary"
      let ?A = "map ReadStarted images
                  @ [Request (analysisRequest s imageParts), Settled (Inr analysisResponse),
                     ConsoleLog ''Image Analysis Summary:'' ?summary]"
      show ?thesis
      proof (cases "generateContent env ai (generationRequest s ?summary)")
        case (Inl e)
        obtain B where B: "fst (generationCatch env
              (?A @ [Request (generationRequest s ?summary), Settled (Inl e)]) e)
            = (?A @ [Request (generationRequest s ?summary), Settled (Inl e)]) @ B"
          "\<forall>b\<in>set B. \<not> isCompositionRequest b"
          using generationCatch_trace by blast
        have "tr = ?A @ Request (generationRequest s ?summary) # (Settled (Inl e) # B)"
          unfolding tr_def using run_composition_failed [OF key parts analysed Inl] B(1) by simp
        moreover have "\<forall>b\<in>set (Settled (Inl e) # B). \<not> isCompositionRequest b"
          using B(2) by (simp add: isCompositionRequest_simps)
        ultimately show ?thesis by blast
      next
        case (Inr generationResponse)
        have "tr = ?A @ Request (generationRequest s ?summary) # [Settled (Inr generationResponse)]"
          unfolding tr_def using run_composed [OF key parts analysed Inr] by simp
        moreover have "\<forall>b\<in>set [Settled (Inr generationResponse)]. \<not> isCompositionRequest b"
          by (simp add: isCompositionRequest_simps)
        ultimately show ?thesis by blast
      qed
    qed
  qed
qed

lemma encodeImage_rejected:
  "encodeImage env g = (t, Inl e) \<longleftrightarrow> readAsDataURL env g = (t, Inl e)"
  by (auto simp: encodeImage_def split: prod.splits sum.splits)

lemma generationCatch_credential:
  assumes "message e = Some m" and "includes_str m ''Requested entity was not found.''"
    and "aistudio env = Some host" and "openSelectKey host = None"
  shows "generationCatch env tr e =
           (tr @ [ConsoleError ''Error during question generation:'' e, OpenSelectKey],
            Inl (new_Error ''API key might be invalid or not selected. Please select a valid key.''))"
proof -
  from assms(2) have "m \<noteq> []" by auto
  with assms show ?thesis by (simp add: generationCatch_def truthy_def Let_def)
qed

lemma generationCatch_other:
  assumes "\<forall>m. message e = Some m \<longrightarrow> \<not> includes_str m ''Requested entity was not found.''"
  shows "generationCatch env tr e =
           (tr @ [ConsoleError ''Error during question generation:'' e],
            Inl (new_Error (case message e of
                   None \<Rightarrow> ''Failed to generate questions. Please check your prompt or try again.''
                 | Some m \<Rightarrow> if m = [] then ''Failed to generate questions. Please check your prompt or try again.'' else m)))"
  using assms by (cases "message e") (simp_all add: generationCatch_def truthy_def or_else_def Let_def)

lemma generationCatch_no_host:
  assumes "message e = Some m" and "includes_str m ''Requested entity was not found.''"
    and "aistudio env = None"
  shows "generationCatch env tr e =
           (tr @ [ConsoleError ''Error during question generation:'' e],
            Inl (TypeError_reading ''openSelectKey''))"
proof -
  from assms(2) have "m \<noteq> []" by auto
  with assms show ?thesis by (simp add: generationCatch_def truthy_def Let_def)
qed

lemma generateExam_calls_core:
  assumes "uploadedImages st \<noteq> []"
  shows "\<exists>tr. fst (snd (generateExam env st)) = CoreCalled (uploadedImages st) (settings st) # tr"
  using assms
  by (auto simp: generateExam_def Let_def split: prod.splits sum.splits option.splits)

lemma run_issues_composition:
  assumes "getGeminiClient env = Inr ai"
    and "Promise_all (map (encodeImage env) images) = Inr imageParts"
    and "generateContent env ai (analysisRequest s imageParts) = Inr analysisResponse"
  shows "Request (generationRequest s (or_else (response_text analysisResponse) fallbackSummary))
           \<in> set (fst (analyzeImagesAndGenerateQuestions env images s))"
proof (cases "generateContent env ai
                (generationRequest s (or_else (response_text analysisResponse) fallbackSummary))")
  case (Inl e)
  define tr where "tr = map ReadStarted images
              @ [Request (analysisRequest s imageParts), Settled (Inr analysisResponse),
                 ConsoleLog ''Image Analysis Summary:''
                   (or_else (response_text analysisResponse) fallbackSummary),
                 Request (generationRequest s
                   (or_else (response_text analysisResponse) fallbackSummary)),
                 Settled (Inl e)]"
  obtain B where "fst (generationCatch env tr e) = tr @ B"
    using generationCatch_trace by blast
  moreover have "analyzeImagesAndGenerateQuestions env images s = generationCatch env tr e"
    unfolding tr_def by (rule run_composition_failed [OF assms Inl])
  ultimately show ?thesis by (simp add: tr_def)
next
  case (Inr generationResponse)
  show ?thesis using run_composed [OF assms Inr] by simp
qed

lemma run_composition_requests:
  assumes "Request q \<in> set (fst (analyzeImagesAndGenerateQuestions env images s))"
    and "model q = ''gemini-2.5-pro''"
  shows "\<exists>summary. q = generationRequest s summary"
proof -
  have c: "isCompositionRequest (Request q)"
    using assms(2) by (simp add: isCompositionRequest_def)
  from run_trace_shape [of env images s]
  show ?thesis
  proof
    assume "\<forall>b\<in>set (fst (analyzeImagesAndGenerateQuestions env images s)). \<not> isCompositionRequest b"
    with assms(1) c show ?thesis by blast
  next
    assume "\<exists>imageParts analysisResponse B.
            fst (analyzeImagesAndGenerateQuestions env images s)
             = (map ReadStarted images
                    @ [Request (analysisRequest s imageParts),
                       Settled (Inr analysisResponse),
                       ConsoleLog ''Image Analysis Summary:''
                         (or_else (response_text analysisResponse) fallbackSummary)])
                 @ Request (generationRequest s
                     (or_else (response_text analysisResponse) fallbackSummary)) # B
            \<and> (\<forall>b\<in>set B. \<not> isCompositionRequest b)"
    then obtain imageParts analysisResponse B where
      tr: "fst (analyzeImagesAndGenerateQuestions env images s)
             = (map ReadStarted images
                    @ [Request (analysisRequest s imageParts),
                       Settled (Inr analysisResponse),
                       ConsoleLog ''Image Analysis Summary:''
                         (or_else (response_text analysisResponse) fallbackSummary)])
                 @ Request (generationRequest s
                     (or_else (response_text analysisResponse) fallbackSummary)) # B"
      and B: "\<forall>b\<in>set B. \<not> isCompositionRequest b"
      by (elim exE conjE)
    define summary where "summary = or_else (response_text analysisResponse) fallbackSummary"
    from assms(1) have "Request q \<in> ReadStarted ` set images
         \<or> Request q = Request (analysisRequest s imageParts)
         \<or> Request q = Request (generationRequest s summary)
         \<or> Request q \<in> set B"
      unfolding tr summary_def by auto
    then have "q = generationRequest s summary"
      using c B by (auto simp: isCompositionRequest_simps)
    then show ?thesis by (rule exI)
  qed
qed

lemma generationPrompt_carries: "carriesInstructions (generationPrompt s summary) s"
  unfolding carriesInstructions_def by (intro conjI generationPrompt_includes)

lemma generationRequest_prompt:
  "model (generationRequest s summary) = ''gemini-2.5-pro''"
  "contents (generationRequest s summary) = [TextPart (generationPrompt s summary)]"
  "carriesInstructions (generationPrompt s summary) s"
  by (simp_all add: generationRequest_def generationPrompt_carries)

section \<open>The example inputs evaluated\<close>

lemma example_page_base64: "base64_encode (fbytes example_page) = ''iVBORw0=''"
  by (simp add: example_page_def b64chars_def)

lemma example_photo_base64: "base64_encode (fbytes example_photo) = ''/9j/4A==''"
  by (simp add: example_photo_def b64chars_def)

lemma platform_read_page:
  "platform_read example_page = (5, Inr ''data:image/png;base64,iVBORw0='')"
  by (simp add: platform_read_def example_page_base64) (simp add: example_page_def)

lemma platform_read_photo:
  "platform_read example_photo = (4, Inr ''data:image/jpeg;base64,/9j/4A=='')"
  by (simp add: platform_read_def example_photo_base64) (simp add: example_photo_def)

lemma example_page_part:
  "readAsDataURL env example_page = (5, Inr ''data:image/png;base64,iVBORw0='')
   \<Longrightarrow> encodeImage env example_page = (5, Inr \<lparr>mimeType = ''image/png'', data = Some ''iVBORw0=''\<rparr>)"
  by (simp add: encodeImage_def at_index_def) (simp add: example_page_def)

lemma example_key:
  "getGeminiClient example_env = Inr ''key''"
  "getGeminiClient env_analysis_down = Inr ''key''"
  "getGeminiClient env_unreadable = Inr ''key''"
  "getGeminiClient env_not_found = Inr ''key''"
  by (simp_all add: getGeminiClient_def truthy_def example_env_def env_analysis_down_def
        env_unreadable_def env_not_found_def)

lemma example_parts:
  "Promise_all (map (encodeImage example_env) [example_page])
     = Inr [\<lparr>mimeType = ''image/png'', data = Some ''iVBORw0=''\<rparr>]"
  "Promise_all (map (encodeImage env_analysis_down) [example_page])
     = Inr [\<lparr>mimeType = ''image/png'', data = Some ''iVBORw0=''\<rparr>]"
  "Promise_all (map (encodeImage env_not_found) [example_page])
     = Inr [\<lparr>mimeType = ''image/png'', data = Some ''iVBORw0=''\<rparr>]"
  by (simp_all add: Promise_all_def example_page_part platform_read_page example_env_def
        env_analysis_down_def env_not_found_def)

lemma example_analysed:
  "generateContent example_env ''key''
     (analysisRequest initialSettings [\<lparr>mimeType = ''image/png'', data = Some ''iVBORw0=''\<rparr>])
   = Inr \<lparr>response_text = Some ''''\<rparr>"
  by (simp add: example_env_def analysisRequest_def)

lemma example_composed:
  "generateContent example_env ''key''
     (generationRequest initialSettings
        (or_else (response_text \<lparr>response_text = Some ''''\<rparr>)
           ''No specific insights extracted from images.''))
   = Inr \<lparr>response_text = Some ''## Multiple Choice Questions (MCQs)''\<rparr>"
  by (simp add: example_env_def generationRequest_def)

lemma example_analysed_no_mcq:
  "generateContent example_env ''key''
     (analysisRequest (initialSettings\<lparr>mcqCount := Integer 0\<rparr>)
        [\<lparr>mimeType = ''image/png'', data = Some ''iVBORw0=''\<rparr>])
   = Inr \<lparr>response_text = Some ''''\<rparr>"
  by (simp add: example_env_def analysisRequest_def)

section \<open>The pipeline\<close>

text \<open>
  C1. In every run in which the key is present, the images are encoded and the analysis
  call returns, a request to the composition model is issued whose contents are a single
  text part, and that text carries the instructions of the settings: it contains
  "exactly <mcqCount> Multiple Choice Questions", "exactly <shortCount> Short Answer
  Questions" and "exactly <longCount> Long Answer Questions", each with the rendering of
  the count as the template literal renders it, and "Use the specified language:
  <language>.".  The same holds of every request to the composition model in the trace of
  any run.  The rendering of a safe integer is its decimal digits, with a minus sign when
  it is negative, and the rendering of 0 is "0": an instruction with a count of 0 is
  "exactly 0 ...", like any other.
\<close>

theorem composition_prompt_instructions:
  "(\<forall>ai imageParts analysisResponse.
       getGeminiClient env = Inr ai
       \<and> Promise_all (map (encodeImage env) images) = Inr imageParts
       \<and> generateContent env ai (analysisRequest s imageParts) = Inr analysisResponse
     \<longrightarrow> (\<exists>q prompt.
            Request q \<in> set (fst (analyzeImagesAndGenerateQuestions env images s))
            \<and> model q = ''gemini-2.5-pro''
            \<and> contents q = [TextPart prompt]
            \<and> carriesInstructions prompt s))
   \<and> (\<forall>q. Request q \<in> set (fst (analyzeImagesAndGenerateQuestions env images s))
            \<and> model q = ''gemini-2.5-pro''
        \<longrightarrow> (\<exists>prompt. contents q = [TextPart prompt] \<and> carriesInstructions prompt s))
   \<and> (\<forall>i. \<bar>i\<bar> \<le> 9007199254740991
        \<longrightarrow> numberToString (Integer i) = (if i < 0 then ''-'' else '''') @ digits (nat \<bar>i\<bar>))
   \<and> numberToString (Integer 0) = ''0''"
proof (intro conjI allI impI)
  fix ai imageParts analysisResponse
  assume h: "getGeminiClient env = Inr ai
       \<and> Promise_all (map (encodeImage env) images) = Inr imageParts
       \<and> generateContent env ai (analysisRequest s imageParts) = Inr analysisResponse"
  define summary where "summary = or_else (response_text analysisResponse) fallbackSummary"
  from h have k: "getGeminiClient env = Inr ai"
    and p: "Promise_all (map (encodeImage env) images) = Inr imageParts"
    and a: "generateContent env ai (analysisRequest s imageParts) = Inr analysisResponse"
    by simp_all
  have "Request (generationRequest s summary)
      \<in> set (fst (analyzeImagesAndGenerateQuestions env images s))"
    unfolding summary_def by (rule run_issues_composition [OF k p a])
  then show "\<exists>q prompt.
            Request q \<in> set (fst (analyzeImagesAndGenerateQuestions env images s))
            \<and> model q = ''gemini-2.5-pro''
            \<and> contents q = [TextPart prompt]
            \<and> carriesInstructions prompt s"
    using generationRequest_prompt [of s summary]
    by (intro exI [of _ "generationRequest s summary"] exI [of _ "generationPrompt s summary"])
       simp
next
  fix q
  assume "Request q \<in> set (fst (analyzeImagesAndGenerateQuestions env images s))
            \<and> model q = ''gemini-2.5-pro''"
  then obtain summary where "q = generationRequest s summary"
    using run_composition_requests [of q env images s] by blast
  then show "\<exists>prompt. contents q = [TextPart prompt] \<and> carriesInstructions prompt s"
    using generationRequest_prompt [of s summary]
    by (intro exI [of _ "generationPrompt s summary"]) simp
next
  fix i :: int
  assume "\<bar>i\<bar> \<le> 9007199254740991"
  then show "numberToString (Integer i) = (if i < 0 then ''-'' else '''') @ digits (nat \<bar>i\<bar>)"
    by (rule numberToString_Integer)
next
  show "numberToString (Integer 0) = ''0''"
    by (rule numberToString_examples)
qed

theorem composition_prompt_instructions_witness:
  "getGeminiClient example_env = Inr ''key''
   \<and> Promise_all (map (encodeImage example_env) [example_page])
       = Inr [\<lparr>mimeType = ''image/png'', data = Some ''iVBORw0=''\<rparr>]
   \<and> generateContent example_env ''key''
         (analysisRequest initialSettings [\<lparr>mimeType = ''image/png'', data = Some ''iVBORw0=''\<rparr>])
       = Inr \<lparr>response_text = Some ''''\<rparr>
   \<and> (\<exists>q prompt.
         Request q \<in> set (fst (analyzeImagesAndGenerateQuestions example_env [example_page]
                                 initialSettings))
         \<and> model q = ''gemini-2.5-pro''
         \<and> contents q = [TextPart prompt]
         \<and> includes_str prompt ''exactly 5 Multiple Choice Questions''
         \<and> includes_str prompt ''exactly 3 Short Answer Questions''
         \<and> includes_str prompt ''exactly 2 Long Answer Questions''
         \<and> includes_str prompt ''Use the specified language: English.'')
   \<and> generateContent example_env ''key''
         (analysisRequest (initialSettings\<lparr>mcqCount := Integer 0\<rparr>)
            [\<lparr>mimeType = ''image/png'', data = Some ''iVBORw0=''\<rparr>])
       = Inr \<lparr>response_text = Some ''''\<rparr>
   \<and> (\<exists>q prompt.
         Request q \<in> set (fst (analyzeImagesAndGenerateQuestions example_env [example_page]
                                 (initialSettings\<lparr>mcqCount := Integer 0\<rparr>)))
         \<and> model q = ''gemini-2.5-pro''
         \<and> contents q = [TextPart prompt]
         \<and> includes_str prompt ''exactly 0 Multiple Choice Questions''
         \<and> includes_str prompt ''exactly 3 Short Answer Questions''
         \<and> includes_str prompt ''exactly 2 Long Answer Questions''
         \<and> includes_str prompt ''Use the specified language: English.'')
   \<and> \<bar>5 :: int\<bar> \<le> 9007199254740991
   \<and> numberToString (Integer 5) = ''5''"
proof -
  let ?parts = "[\<lparr>mimeType = ''image/png'', data = Some ''iVBORw0=''\<rparr>]"
  let ?zero = "initialSettings\<lparr>mcqCount := Integer 0\<rparr>"
  note inst = composition_prompt_instructions [of example_env "[example_page]" initialSettings]
  note inst0 = composition_prompt_instructions [of example_env "[example_page]" ?zero]
  from inst have
    "getGeminiClient example_env = Inr ''key''
       \<and> Promise_all (map (encodeImage example_env) [example_page]) = Inr ?parts
       \<and> generateContent example_env ''key'' (analysisRequest initialSettings ?parts)
           = Inr \<lparr>response_text = Some ''''\<rparr>
     \<longrightarrow> (\<exists>q prompt.
            Request q \<in> set (fst (analyzeImagesAndGenerateQuestions example_env [example_page]
                                    initialSettings))
            \<and> model q = ''gemini-2.5-pro''
            \<and> contents q = [TextPart prompt]
            \<and> carriesInstructions prompt initialSettings)"
    by (elim conjE allE)
  with example_key(1) example_parts(1) example_analysed
  obtain q prompt where
    "Request q \<in> set (fst (analyzeImagesAndGenerateQuestions example_env [example_page]
                             initialSettings))"
    "model q = ''gemini-2.5-pro''" "contents q = [TextPart prompt]"
    "carriesInstructions prompt initialSettings"
    by (elim impE conjE exE) (intro conjI)
  then have a: "\<exists>q prompt.
         Request q \<in> set (fst (analyzeImagesAndGenerateQuestions example_env [example_page]
                                 initialSettings))
         \<and> model q = ''gemini-2.5-pro''
         \<and> contents q = [TextPart prompt]
         \<and> includes_str prompt ''exactly 5 Multiple Choice Questions''
         \<and> includes_str prompt ''exactly 3 Short Answer Questions''
         \<and> includes_str prompt ''exactly 2 Long Answer Questions''
         \<and> includes_str prompt ''Use the specified language: English.''"
    by (intro exI [of _ q] exI [of _ prompt])
       (simp add: carriesInstructions_def initialSettings_def numberToString_examples)
  from inst0 have
    "getGeminiClient example_env = Inr ''key''
       \<and> Promise_all (map (encodeImage example_env) [example_page]) = Inr ?parts
       \<and> generateContent example_env ''key'' (analysisRequest ?zero ?parts)
           = Inr \<lparr>response_text = Some ''''\<rparr>
     \<longrightarrow> (\<exists>q prompt.
            Request q \<in> set (fst (analyzeImagesAndGenerateQuestions example_env [example_page]
                                    ?zero))
            \<and> model q = ''gemini-2.5-pro''
            \<and> contents q = [TextPart prompt]
            \<and> carriesInstructions prompt ?zero)"
    by (elim conjE allE)
  with example_key(1) example_parts(1) example_analysed_no_mcq
  obtain q0 prompt0 where
    "Request q0 \<in> set (fst (analyzeImagesAndGenerateQuestions example_env [example_page] ?zero))"
    "model q0 = ''gemini-2.5-pro''" "contents q0 = [TextPart prompt0]"
    "carriesInstructions prompt0 ?zero"
    by (elim impE conjE exE) (intro conjI)
  then have b: "\<exists>q prompt.
         Request q \<in> set (fst (analyzeImagesAndGenerateQuestions example_env [example_page] ?zero))
         \<and> model q = ''gemini-2.5-pro''
         \<and> contents q = [TextPart prompt]
         \<and> includes_str prompt ''exactly 0 Multiple Choice Questions''
         \<and> includes_str prompt ''exactly 3 Short Answer Questions''
         \<and> includes_str prompt ''exactly 2 Long Answer Questions''
         \<and> includes_str prompt ''Use the specified language: English.''"
    by (intro exI [of _ q0] exI [of _ prompt0])
       (simp add: carriesInstructions_def initialSettings_def numberToString_examples)
  from inst have
    "\<bar>5 :: int\<bar> \<le> 9007199254740991
     \<longrightarrow> numberToString (Integer 5) = (if (5 :: int) < 0 then ''-'' else '''') @ digits (nat \<bar>5\<bar>)"
    by (elim conjE allE)
  moreover have five: "\<bar>5 :: int\<bar> \<le> 9007199254740991" by simp
  ultimately have c: "numberToString (Integer 5) = ''5''"
    by (simp add: digits_small)
  from example_key(1) example_parts(1) example_analysed a example_analysed_no_mcq b five c
  show ?thesis by (intro conjI)
qed

text \<open>
  C2. When the key is present, the images are encoded and the analysis call returns a
  response whose text is missing or empty, the run issues the composition request built
  from the literal summary "No specific insights extracted from images.".  Moreover, in
  every run whatsoever, each request to the composition model that appears in the trace is
  the composition request of the settings for some summary that is not empty.
\<close>

theorem empty_analysis_uses_fallback:
  "(\<forall>ai imageParts analysisResponse.
       getGeminiClient env = Inr ai
       \<and> Promise_all (map (encodeImage env) images) = Inr imageParts
       \<and> generateContent env ai (analysisRequest s imageParts) = Inr analysisResponse
       \<and> \<not> truthy (response_text analysisResponse)
     \<longrightarrow> Request (generationRequest s ''No specific insights extracted from images.'')
           \<in> set (fst (analyzeImagesAndGenerateQuestions env images s)))
   \<and> (\<forall>q. Request q \<in> set (fst (analyzeImagesAndGenerateQuestions env images s))
            \<and> model q = ''gemini-2.5-pro''
        \<longrightarrow> (\<exists>summary. summary \<noteq> [] \<and> q = generationRequest s summary))"
proof (intro conjI allI impI)
  fix ai imageParts analysisResponse
  assume h: "getGeminiClient env = Inr ai
       \<and> Promise_all (map (encodeImage env) images) = Inr imageParts
       \<and> generateContent env ai (analysisRequest s imageParts) = Inr analysisResponse
       \<and> \<not> truthy (response_text analysisResponse)"
  then have summary: "or_else (response_text analysisResponse) fallbackSummary = fallbackSummary"
    by (simp add: or_else_falsy)
  show "Request (generationRequest s ''No specific insights extracted from images.'')
           \<in> set (fst (analyzeImagesAndGenerateQuestions env images s))"
  proof (cases "generateContent env ai (generationRequest s fallbackSummary)")
    case (Inl e)
    obtain B where "fst (generationCatch env
        (map ReadStarted images
              @ [Request (analysisRequest s imageParts), Settled (Inr analysisResponse),
                 ConsoleLog ''Image Analysis Summary:'' fallbackSummary,
                 Request (generationRequest s fallbackSummary),
                 Settled (Inl e)]) e) = (map ReadStarted images
              @ [Request (analysisRequest s imageParts), Settled (Inr analysisResponse),
                 ConsoleLog ''Image Analysis Summary:'' fallbackSummary,
                 Request (generationRequest s fallbackSummary),
                 Settled (Inl e)]) @ B"
      using generationCatch_trace by blast
    then show ?thesis
      using run_composition_failed [of env ai images imageParts s analysisResponse e] h Inl summary
      by (simp add: fallbackSummary_def)
  next
    case (Inr generationResponse)
    then show ?thesis
      using run_composed [of env ai images imageParts s analysisResponse generationResponse] h summary
      by (simp add: fallbackSummary_def)
  qed
next
  fix q
  assume q: "Request q \<in> set (fst (analyzeImagesAndGenerateQuestions env images s))
            \<and> model q = ''gemini-2.5-pro''"
  then have c: "isCompositionRequest (Request q)" by (simp add: isCompositionRequest_def)
  from run_trace_shape [of env images s]
  show "\<exists>summary. summary \<noteq> [] \<and> q = generationRequest s summary"
  proof
    assume "\<forall>b\<in>set (fst (analyzeImagesAndGenerateQuestions env images s)). \<not> isCompositionRequest b"
    with q c show ?thesis by blast
  next
    assume "\<exists>imageParts analysisResponse B.
            fst (analyzeImagesAndGenerateQuestions env images s)
             = (map ReadStarted images
                    @ [Request (analysisRequest s imageParts),
                       Settled (Inr analysisResponse),
                       ConsoleLog ''Image Analysis Summary:''
                         (or_else (response_text analysisResponse) fallbackSummary)])
                 @ Request (generationRequest s
                     (or_else (response_text analysisResponse) fallbackSummary)) # B
            \<and> (\<forall>b\<in>set B. \<not> isCompositionRequest b)"
    then obtain imageParts analysisResponse B where
      tr: "fst (analyzeImagesAndGenerateQuestions env images s)
             = (map ReadStarted images
                    @ [Request (analysisRequest s imageParts),
                       Settled (Inr analysisResponse),
                       ConsoleLog ''Image Analysis Summary:''
                         (or_else (response_text analysisResponse) fallbackSummary)])
                 @ Request (generationRequest s
                     (or_else (response_text analysisResponse) fallbackSummary)) # B"
      and B: "\<forall>b\<in>set B. \<not> isCompositionRequest b"
      by blast
    let ?summary = "or_else (response_text analysisResponse) fallbackSummary"
    from q have "Request q \<in> set (fst (analyzeImagesAndGenerateQuestions env images s))" by simp
    then have "Request q \<in> ReadStarted ` set images
         \<or> Request q = Request (analysisRequest s imageParts)
         \<or> Request q = Request (generationRequest s ?summary)
         \<or> Request q \<in> set B"
      unfolding tr by auto
    then have "q = generationRequest s ?summary"
      using c B by (auto simp: isCompositionRequest_simps)
    moreover have "?summary \<noteq> []"
      by (rule or_else_nonempty) (simp add: fallbackSummary_def)
    ultimately show ?thesis by blast
  qed
qed

theorem empty_analysis_uses_fallback_witness:
  "getGeminiClient example_env = Inr ''key''
   \<and> Promise_all (map (encodeImage example_env) [example_page])
       = Inr [\<lparr>mimeType = ''image/png'', data = Some ''iVBORw0=''\<rparr>]
   \<and> generateContent example_env ''key''
         (analysisRequest initialSettings [\<lparr>mimeType = ''image/png'', data = Some ''iVBORw0=''\<rparr>])
       = Inr \<lparr>response_text = Some ''''\<rparr>
   \<and> \<not> truthy (response_text \<lparr>response_text = Some ''''\<rparr>)
   \<and> Request (generationRequest initialSettings ''No specific insights extracted from images.'')
       \<in> set (fst (analyzeImagesAndGenerateQuestions example_env [example_page] initialSettings))
   \<and> model (generationRequest initialSettings ''No specific insights extracted from images.'')
       = ''gemini-2.5-pro''
   \<and> (\<exists>summary. summary \<noteq> []
         \<and> generationRequest initialSettings ''No specific insights extracted from images.''
             = generationRequest initialSettings summary)"
proof -
  let ?parts = "[\<lparr>mimeType = ''image/png'', data = Some ''iVBORw0=''\<rparr>]"
  let ?greq = "generationRequest initialSettings ''No specific insights extracted from images.''"
  have a: "generateContent example_env ''key'' (analysisRequest initialSettings ?parts)
             = Inr \<lparr>response_text = Some ''''\<rparr>"
    by (simp add: example_env_def analysisRequest_def)
  have f: "\<not> truthy (response_text \<lparr>response_text = Some ''''\<rparr>)"
    by (simp add: truthy_def)
  have m: "model ?greq = ''gemini-2.5-pro''"
    by (simp add: generationRequest_def)
  note inst = empty_analysis_uses_fallback [of example_env "[example_page]" initialSettings]
  from inst have
    "getGeminiClient example_env = Inr ''key''
       \<and> Promise_all (map (encodeImage example_env) [example_page]) = Inr ?parts
       \<and> generateContent example_env ''key'' (analysisRequest initialSettings ?parts)
           = Inr \<lparr>response_text = Some ''''\<rparr>
       \<and> \<not> truthy (response_text \<lparr>response_text = Some ''''\<rparr>)
     \<longrightarrow> Request ?greq
           \<in> set (fst (analyzeImagesAndGenerateQuestions example_env [example_page] initialSettings))"
    by (elim conjE allE)
  with example_key(1) example_parts(1) a f
  have issued: "Request ?greq
      \<in> set (fst (analyzeImagesAndGenerateQuestions example_env [example_page] initialSettings))"
    by simp
  from inst have
    "Request ?greq
        \<in> set (fst (analyzeImagesAndGenerateQuestions example_env [example_page] initialSettings))
      \<and> model ?greq = ''gemini-2.5-pro''
     \<longrightarrow> (\<exists>summary. summary \<noteq> [] \<and> ?greq = generationRequest initialSettings summary)"
    by (elim conjE allE)
  with issued m
  have "\<exists>summary. summary \<noteq> [] \<and> ?greq = generationRequest initialSettings summary"
    by simp
  with example_key(1) example_parts(1) a f issued m show ?thesis
    by (intro conjI)
qed

text \<open>
  C3. Wherever a composition request occurs in the trace of a run, everything before it
  is: the reads of the images, the analysis request, the fulfilment of the analysis
  request, and the log of the summary, in this order; the composition request is built from
  the summary of that analysis response (its text, or the fallback), and no second
  composition request follows.  So a composition request is never issued before the
  analysis request has resolved, and never after a failed analysis.
\<close>

theorem composition_after_analysis:
  assumes "fst (analyzeImagesAndGenerateQuestions env images s) = pre @ ev # post"
    and "isCompositionRequest ev"
  shows "\<exists>imageParts analysisResponse.
           pre = map ReadStarted images
                   @ [Request (analysisRequest s imageParts),
                      Settled (Inr analysisResponse),
                      ConsoleLog ''Image Analysis Summary:''
                        (or_else (response_text analysisResponse)
                           ''No specific insights extracted from images.'')]
           \<and> ev = Request (generationRequest s
                     (or_else (response_text analysisResponse)
                        ''No specific insights extracted from images.''))
           \<and> (\<forall>b\<in>set post. \<not> isCompositionRequest b)"
proof -
  from run_trace_shape [of env images s]
  show ?thesis
  proof
    assume "\<forall>b\<in>set (fst (analyzeImagesAndGenerateQuestions env images s)). \<not> isCompositionRequest b"
    then have False
      by (rule no_split [where P = isCompositionRequest, OF assms(1) assms(2)])
    then show ?thesis ..
  next
    assume "\<exists>imageParts analysisResponse B.
            fst (analyzeImagesAndGenerateQuestions env images s)
             = (map ReadStarted images
                    @ [Request (analysisRequest s imageParts),
                       Settled (Inr analysisResponse),
                       ConsoleLog ''Image Analysis Summary:''
                         (or_else (response_text analysisResponse) fallbackSummary)])
                 @ Request (generationRequest s
                     (or_else (response_text analysisResponse) fallbackSummary)) # B
            \<and> (\<forall>b\<in>set B. \<not> isCompositionRequest b)"
    then obtain imageParts analysisResponse B where
      tr: "fst (analyzeImagesAndGenerateQuestions env images s)
             = (map ReadStarted images
                    @ [Request (analysisRequest s imageParts),
                       Settled (Inr analysisResponse),
                       ConsoleLog ''Image Analysis Summary:''
                         (or_else (response_text analysisResponse) fallbackSummary)])
                 @ Request (generationRequest s
                     (or_else (response_text analysisResponse) fallbackSummary)) # B"
      and B: "\<forall>b\<in>set B. \<not> isCompositionRequest b"
      by (elim exE conjE)
    define summary where "summary = or_else (response_text analysisResponse) fallbackSummary"
    define A where "A = map ReadStarted images
                    @ [Request (analysisRequest s imageParts),
                       Settled (Inr analysisResponse),
                       ConsoleLog ''Image Analysis Summary:'' summary]"
    have A: "\<forall>y\<in>set A. \<not> isCompositionRequest y"
      unfolding A_def by (auto simp: isCompositionRequest_simps)
    have "A @ Request (generationRequest s summary) # B = pre @ ev # post"
      using tr assms(1) unfolding A_def summary_def by simp
    from unique_split [where P = isCompositionRequest, OF this assms(2) A B]
    have e: "pre = A" "ev = Request (generationRequest s summary)" "post = B"
      by simp_all
    show ?thesis
    proof (intro exI conjI)
      show "pre = map ReadStarted images
                   @ [Request (analysisRequest s imageParts),
                      Settled (Inr analysisResponse),
                      ConsoleLog ''Image Analysis Summary:''
                        (or_else (response_text analysisResponse)
                           ''No specific insights extracted from images.'')]"
        using e(1) unfolding A_def summary_def fallbackSummary_def .
      show "ev = Request (generationRequest s
                     (or_else (response_text analysisResponse)
                        ''No specific insights extracted from images.''))"
        using e(2) unfolding summary_def fallbackSummary_def .
      show "\<forall>b\<in>set post. \<not> isCompositionRequest b"
        using e(3) B by simp
    qed
  qed
qed

theorem composition_after_analysis_witness:
  "fst (analyzeImagesAndGenerateQuestions example_env [example_page] initialSettings)
     = [ReadStarted example_page,
        Request (analysisRequest initialSettings
                   [\<lparr>mimeType = ''image/png'', data = Some ''iVBORw0=''\<rparr>]),
        Settled (Inr \<lparr>response_text = Some ''''\<rparr>),
        ConsoleLog ''Image Analysis Summary:'' ''No specific insights extracted from images.'']
       @ Request (generationRequest initialSettings ''No specific insights extracted from images.'')
       # [Settled (Inr \<lparr>response_text = Some ''## Multiple Choice Questions (MCQs)''\<rparr>)]
   \<and> isCompositionRequest
         (Request (generationRequest initialSettings ''No specific insights extracted from images.''))
   \<and> (\<exists>imageParts analysisResponse.
          [ReadStarted example_page,
           Request (analysisRequest initialSettings
                      [\<lparr>mimeType = ''image/png'', data = Some ''iVBORw0=''\<rparr>]),
           Settled (Inr \<lparr>response_text = Some ''''\<rparr>),
           ConsoleLog ''Image Analysis Summary:'' ''No specific insights extracted from images.'']
          = map ReadStarted [example_page]
              @ [Request (analysisRequest initialSettings imageParts),
                 Settled (Inr analysisResponse),
                 ConsoleLog ''Image Analysis Summary:''
                   (or_else (response_text analysisResponse)
                      ''No specific insights extracted from images.'')]
        \<and> Request (generationRequest initialSettings ''No specific insights extracted from images.'')
            = Request (generationRequest initialSettings
                (or_else (response_text analysisResponse)
                   ''No specific insights extracted from images.''))
        \<and> (\<forall>b\<in>set [Settled (Inr \<lparr>response_text = Some ''## Multiple Choice Questions (MCQs)''\<rparr>)].
              \<not> isCompositionRequest b))"
proof -
  have summary: "or_else (response_text \<lparr>response_text = Some ''''\<rparr>)
                   ''No specific insights extracted from images.''
                 = ''No specific insights extracted from images.''"
    by (simp add: or_else_def)
  have tr: "fst (analyzeImagesAndGenerateQuestions example_env [example_page] initialSettings)
     = [ReadStarted example_page,
        Request (analysisRequest initialSettings
                   [\<lparr>mimeType = ''image/png'', data = Some ''iVBORw0=''\<rparr>]),
        Settled (Inr \<lparr>response_text = Some ''''\<rparr>),
        ConsoleLog ''Image Analysis Summary:'' ''No specific insights extracted from images.'']
       @ Request (generationRequest initialSettings ''No specific insights extracted from images.'')
       # [Settled (Inr \<lparr>response_text = Some ''## Multiple Choice Questions (MCQs)''\<rparr>)]"
    using run_composed [OF example_key(1) example_parts(1) example_analysed,
        of "\<lparr>response_text = Some ''## Multiple Choice Questions (MCQs)''\<rparr>"]
      example_composed
    by (simp add: fallbackSummary_def or_else_def)
  have c: "isCompositionRequest
         (Request (generationRequest initialSettings ''No specific insights extracted from images.''))"
    by (rule isCompositionRequest_simps)
  from composition_after_analysis [OF tr c] tr c show ?thesis
    by (intro conjI)
qed

text \<open>
  C4. When the read of every image succeeds with the data URL of its bytes (a header
  \<open>data:<media type>;base64\<close> without a comma, a comma, and the base64 transcription of the
  bytes), the encoder is fulfilled with exactly one part per image, in the order of the
  images; the \<open>mimeType\<close> of each part is the type of its file, its payload is the complete
  base64 transcription of the file's bytes with the header stripped, and decoding the
  payload gives back the bytes.
\<close>

theorem encoder_parts:
  assumes "\<forall>f\<in>set images. \<exists>t mediatype. CHR '','' \<notin> set mediatype
             \<and> readAsDataURL env f
                 = (t, Inr (''data:'' @ mediatype @ '';base64,'' @ base64_encode (fbytes f)))"
  shows "\<exists>imageParts. Promise_all (map (encodeImage env) images) = Inr imageParts
           \<and> length imageParts = length images
           \<and> map mimeType imageParts = map ftype images
           \<and> map data imageParts = map (\<lambda>f. Some (base64_encode (fbytes f))) images
           \<and> map (\<lambda>p. Option.bind (data p) base64_decode) imageParts
               = map (\<lambda>f. Some (fbytes f)) images"
proof -
  let ?h = "\<lambda>f. \<lparr>mimeType = ftype f, data = Some (base64_encode (fbytes f))\<rparr>"
  have "\<exists>t. encodeImage env f = (t, Inr (?h f))" if "f \<in> set images" for f
  proof -
    from assms that obtain t mediatype where
      m: "CHR '','' \<notin> set mediatype"
      and r: "readAsDataURL env f
                 = (t, Inr (''data:'' @ mediatype @ '';base64,'' @ base64_encode (fbytes f)))"
      by blast
    have "CHR '','' \<notin> set (''data:'' @ mediatype @ '';base64'')" using m by simp
    then have "at_index (split_on CHR '',''
                 ((''data:'' @ mediatype @ '';base64'') @ '','' @ base64_encode (fbytes f))) 1
               = Some (base64_encode (fbytes f))"
      using base64_no_comma by (rule strip_header)
    then show ?thesis using r by (simp add: encodeImage_def)
  qed
  then have "Promise_all (map (encodeImage env) images) = Inr (map ?h images)"
    by (rule Promise_all_fulfilled)
  then show ?thesis by (simp add: o_def base64_roundtrip)
qed

theorem encoder_parts_witness:
  "(\<exists>t mediatype. CHR '','' \<notin> set mediatype
       \<and> readAsDataURL example_env example_page
           = (t, Inr (''data:'' @ mediatype @ '';base64,'' @ base64_encode (fbytes example_page))))
   \<and> (\<exists>t mediatype. CHR '','' \<notin> set mediatype
       \<and> readAsDataURL example_env example_photo
           = (t, Inr (''data:'' @ mediatype @ '';base64,'' @ base64_encode (fbytes example_photo))))
   \<and> (\<exists>imageParts.
         Promise_all (map (encodeImage example_env) [example_page, example_photo]) = Inr imageParts
         \<and> length imageParts = 2
         \<and> map mimeType imageParts = [''image/png'', ''image/jpeg'']
         \<and> map data imageParts = [Some ''iVBORw0='', Some ''/9j/4A=='']
         \<and> map (\<lambda>p. Option.bind (data p) base64_decode) imageParts
             = [Some [0x89, 0x50, 0x4E, 0x47, 0x0D], Some [0xFF, 0xD8, 0xFF, 0xE0]])"
proof -
  have page: "\<exists>t mediatype. CHR '','' \<notin> set mediatype
       \<and> readAsDataURL example_env example_page
           = (t, Inr (''data:'' @ mediatype @ '';base64,'' @ base64_encode (fbytes example_page)))"
    by (rule exI [of _ 5], rule exI [of _ "''image/png''"])
       (simp add: example_env_def platform_read_page example_page_base64)
  have photo: "\<exists>t mediatype. CHR '','' \<notin> set mediatype
       \<and> readAsDataURL example_env example_photo
           = (t, Inr (''data:'' @ mediatype @ '';base64,'' @ base64_encode (fbytes example_photo)))"
    by (rule exI [of _ 4], rule exI [of _ "''image/jpeg''"])
       (simp add: example_env_def platform_read_photo example_photo_base64)
  have reads: "\<forall>f\<in>set [example_page, example_photo]. \<exists>t mediatype. CHR '','' \<notin> set mediatype
       \<and> readAsDataURL example_env f
           = (t, Inr (''data:'' @ mediatype @ '';base64,'' @ base64_encode (fbytes f)))"
    using page photo by simp
  from encoder_parts [OF reads] obtain imageParts where
    all: "Promise_all (map (encodeImage example_env) [example_page, example_photo]) = Inr imageParts"
    and len: "length imageParts = length [example_page, example_photo]"
    and types: "map mimeType imageParts = map ftype [example_page, example_photo]"
    and payloads: "map data imageParts
                     = map (\<lambda>f. Some (base64_encode (fbytes f))) [example_page, example_photo]"
    and decoded: "map (\<lambda>p. Option.bind (data p) base64_decode) imageParts
                     = map (\<lambda>f. Some (fbytes f)) [example_page, example_photo]"
    by (elim exE conjE)
  have "length imageParts = 2"
    using len by simp
  moreover have "map mimeType imageParts = [''image/png'', ''image/jpeg'']"
    using types by (simp add: example_page_def example_photo_def)
  moreover have "map data imageParts = [Some ''iVBORw0='', Some ''/9j/4A=='']"
    using payloads by (simp add: example_page_base64 example_photo_base64)
  moreover have "map (\<lambda>p. Option.bind (data p) base64_decode) imageParts
             = [Some [0x89, 0x50, 0x4E, 0x47, 0x0D], Some [0xFF, 0xD8, 0xFF, 0xE0]]"
    using decoded by (simp add: example_page_def example_photo_def)
  ultimately have "\<exists>imageParts.
         Promise_all (map (encodeImage example_env) [example_page, example_photo]) = Inr imageParts
         \<and> length imageParts = 2
         \<and> map mimeType imageParts = [''image/png'', ''image/jpeg'']
         \<and> map data imageParts = [Some ''iVBORw0='', Some ''/9j/4A=='']
         \<and> map (\<lambda>p. Option.bind (data p) base64_decode) imageParts
             = [Some [0x89, 0x50, 0x4E, 0x47, 0x0D], Some [0xFF, 0xD8, 0xFF, 0xE0]]"
    using all by (intro exI [of _ imageParts] conjI)
  with page photo show ?thesis by (intro conjI)
qed

text \<open>
  C5. Specified: on a composition failure whose message contains "Requested entity was
  not found.", \<open>openSelectKey\<close> is invoked once and the surfaced message is "API key might
  be invalid or not selected. Please select a valid key.".  In the code the call
  \<^verbatim>\<open>window.aistudio.openSelectKey()\<close> is not guarded: where the host has no
  \<^verbatim>\<open>window.aistudio\<close> (the case that \<^verbatim>\<open>App.tsx\<close> checks for before each of its own calls),
  the run ends with the TypeError of reading \<open>openSelectKey\<close> of \<^verbatim>\<open>undefined\<close>,
  \<open>openSelectKey\<close> is never invoked, and the surfaced error is not the credential message.
  The lemmas \<open>generationCatch_credential\<close> and \<open>generationCatch_other\<close> above give the
  behaviour of the handler where the capability is present and resolves, and for every
  other error.
\<close>

theorem credential_error_without_host:
  "aistudio env_not_found = None
   \<and> snd (analyzeImagesAndGenerateQuestions env_not_found [example_page] initialSettings)
       = Inl (TypeError_reading ''openSelectKey'')
   \<and> OpenSelectKey \<notin> set (fst (analyzeImagesAndGenerateQuestions env_not_found [example_page]
                                  initialSettings))
   \<and> TypeError_reading ''openSelectKey''
       \<noteq> new_Error ''API key might be invalid or not selected. Please select a valid key.''"
proof -
  let ?parts = "[\<lparr>mimeType = ''image/png'', data = Some ''iVBORw0=''\<rparr>]"
  let ?e = "Thrown ''ApiError'' (Some ''Requested entity was not found.'')"
  have h: "aistudio env_not_found = None"
    by (simp add: env_not_found_def example_env_def)
  have a: "generateContent env_not_found ''key'' (analysisRequest initialSettings ?parts)
             = Inr \<lparr>response_text = Some ''Cell structure.''\<rparr>"
    by (simp add: env_not_found_def analysisRequest_def)
  have g: "generateContent env_not_found ''key''
             (generationRequest initialSettings
                (or_else (response_text \<lparr>response_text = Some ''Cell structure.''\<rparr>)
                   fallbackSummary))
           = Inl ?e"
    by (simp add: env_not_found_def generationRequest_def)
  have i: "includes_str ''Requested entity was not found.'' ''Requested entity was not found.''"
    by simp
  have c: "generationCatch env_not_found tr ?e
             = (tr @ [ConsoleError ''Error during question generation:'' ?e],
                Inl (TypeError_reading ''openSelectKey''))" for tr
    by (rule generationCatch_no_host [OF _ i h]) simp
  have run: "analyzeImagesAndGenerateQuestions env_not_found [example_page] initialSettings
      = (map ReadStarted [example_page]
              @ [Request (analysisRequest initialSettings ?parts),
                 Settled (Inr \<lparr>response_text = Some ''Cell structure.''\<rparr>),
                 ConsoleLog ''Image Analysis Summary:''
                   (or_else (response_text \<lparr>response_text = Some ''Cell structure.''\<rparr>)
                      fallbackSummary),
                 Request (generationRequest initialSettings
                   (or_else (response_text \<lparr>response_text = Some ''Cell structure.''\<rparr>)
                      fallbackSummary)),
                 Settled (Inl ?e)]
              @ [ConsoleError ''Error during question generation:'' ?e],
         Inl (TypeError_reading ''openSelectKey''))"
    using run_composition_failed [OF example_key(4) example_parts(3) a g] c by simp
  have "TypeError_reading ''openSelectKey''
       \<noteq> new_Error ''API key might be invalid or not selected. Please select a valid key.''"
    by (simp add: TypeError_reading_def new_Error_def)
  with h run show ?thesis by simp
qed

text \<open>
  C6. When the analysis call throws, whatever the thrown value, the error surfaced to the
  caller is \<^verbatim>\<open>new Error("Failed to analyze images. Please try again.")\<close>: nothing of the
  thrown value is in it, and no composition request is issued.
\<close>

theorem analysis_failure_message:
  assumes "getGeminiClient env = Inr ai"
    and "Promise_all (map (encodeImage env) images) = Inr imageParts"
    and "generateContent env ai (analysisRequest s imageParts) = Inl e"
  shows "snd (analyzeImagesAndGenerateQuestions env images s)
           = Inl (Thrown ''Error'' (Some ''Failed to analyze images. Please try again.''))
         \<and> (\<forall>b\<in>set (fst (analyzeImagesAndGenerateQuestions env images s)).
               \<not> isCompositionRequest b)"
  using run_analysis_failed [OF assms]
  by (auto simp: new_Error_def isCompositionRequest_simps)

theorem analysis_failure_message_witness:
  "getGeminiClient env_analysis_down = Inr ''key''
   \<and> Promise_all (map (encodeImage env_analysis_down) [example_page])
       = Inr [\<lparr>mimeType = ''image/png'', data = Some ''iVBORw0=''\<rparr>]
   \<and> generateContent env_analysis_down ''key''
         (analysisRequest initialSettings [\<lparr>mimeType = ''image/png'', data = Some ''iVBORw0=''\<rparr>])
       = Inl (Thrown ''ApiError'' (Some ''503 Service Unavailable''))
   \<and> snd (analyzeImagesAndGenerateQuestions env_analysis_down [example_page] initialSettings)
       = Inl (Thrown ''Error'' (Some ''Failed to analyze images. Please try again.''))
   \<and> filter isCompositionRequest
         (fst (analyzeImagesAndGenerateQuestions env_analysis_down [example_page] initialSettings))
       = []"
proof -
  have a: "generateContent env_analysis_down ''key''
         (analysisRequest initialSettings [\<lparr>mimeType = ''image/png'', data = Some ''iVBORw0=''\<rparr>])
       = Inl (Thrown ''ApiError'' (Some ''503 Service Unavailable''))"
    by (simp add: env_analysis_down_def)
  from analysis_failure_message [OF example_key(2) example_parts(2) a]
  have "snd (analyzeImagesAndGenerateQuestions env_analysis_down [example_page] initialSettings)
       = Inl (Thrown ''Error'' (Some ''Failed to analyze images. Please try again.''))"
    and "filter isCompositionRequest
         (fst (analyzeImagesAndGenerateQuestions env_analysis_down [example_page] initialSettings))
       = []"
    by (simp_all add: filter_empty_conv)
  with example_key(2) example_parts(2) a
  show ?thesis by (intro conjI)
qed

text \<open>
  C7. When the read of at least one image fails, the encoder as a whole is rejected, with
  the very value that a failed read was rejected with, and this read is one that failed
  first (no failed read settled earlier); the run ends with that value, after starting the
  reads and nothing else: no list of parts is produced and no request is issued.
\<close>

theorem encoder_fails_as_a_whole:
  assumes "getGeminiClient env = Inr ai"
    and "f \<in> set images" and "readAsDataURL env f = (t0, Inl e0)"
  shows "\<exists>t e g. g \<in> set images \<and> readAsDataURL env g = (t, Inl e)
           \<and> (\<forall>g'\<in>set images. \<forall>t' e'. readAsDataURL env g' = (t', Inl e') \<longrightarrow> t \<le> t')
           \<and> Promise_all (map (encodeImage env) images) = Inl e
           \<and> analyzeImagesAndGenerateQuestions env images s = (map ReadStarted images, Inl e)"
proof -
  have "encodeImage env f \<in> set (map (encodeImage env) images)"
    using assms(2) by simp
  moreover have "encodeImage env f = (t0, Inl e0)"
    using assms(3) by (simp add: encodeImage_rejected)
  ultimately have "(t0, Inl e0) \<in> set (map (encodeImage env) images)"
    by simp
  from Promise_all_rejected [OF this] obtain t e where
    all: "Promise_all (map (encodeImage env) images) = Inl e"
    and mem: "(t, Inl e) \<in> set (map (encodeImage env) images)"
    and least: "\<forall>t' e'. (t', Inl e') \<in> set (map (encodeImage env) images) \<longrightarrow> t \<le> t'"
    by blast
  from mem obtain g where "g \<in> set images" "encodeImage env g = (t, Inl e)"
    by auto
  then have g: "g \<in> set images" "readAsDataURL env g = (t, Inl e)"
    by (simp_all add: encodeImage_rejected)
  have "t \<le> t'" if "g' \<in> set images" "readAsDataURL env g' = (t', Inl e')" for g' t' e'
  proof -
    have "encodeImage env g' \<in> set (map (encodeImage env) images)"
      using that(1) by simp
    moreover have "encodeImage env g' = (t', Inl e')"
      using that(2) by (simp add: encodeImage_rejected)
    ultimately have "(t', Inl e') \<in> set (map (encodeImage env) images)"
      by simp
    with least show ?thesis by blast
  qed
  with g all run_encoding_failed [OF assms(1) all, of s] show ?thesis by blast
qed

theorem encoder_fails_as_a_whole_witness:
  "getGeminiClient env_unreadable = Inr ''key''
   \<and> example_photo \<in> set [example_page, example_photo]
   \<and> readAsDataURL env_unreadable example_photo = (1, Inl (Thrown ''ProgressEvent'' None))
   \<and> (\<exists>t e g. g \<in> set [example_page, example_photo]
         \<and> readAsDataURL env_unreadable g = (t, Inl e)
         \<and> (\<forall>g'\<in>set [example_page, example_photo]. \<forall>t' e'.
               readAsDataURL env_unreadable g' = (t', Inl e') \<longrightarrow> t \<le> t')
         \<and> Promise_all (map (encodeImage env_unreadable) [example_page, example_photo]) = Inl e
         \<and> analyzeImagesAndGenerateQuestions env_unreadable [example_page, example_photo]
              initialSettings
            = (map ReadStarted [example_page, example_photo], Inl e))"
proof -
  have m: "example_photo \<in> set [example_page, example_photo]" by simp
  have r: "readAsDataURL env_unreadable example_photo = (1, Inl (Thrown ''ProgressEvent'' None))"
    by (simp add: env_unreadable_def example_env_def example_photo_def)
  from encoder_fails_as_a_whole [OF example_key(3) m r, of initialSettings]
    example_key(3) m r
  show ?thesis by (intro conjI)
qed

text \<open>
  C8. When the composition call returns a response, the run returns the \<open>text\<close> of that
  response as it is, whatever it is (also when it is missing or empty: there is no
  fallback at this stage).
\<close>

theorem composition_text_returned:
  assumes "getGeminiClient env = Inr ai"
    and "Promise_all (map (encodeImage env) images) = Inr imageParts"
    and "generateContent env ai (analysisRequest s imageParts) = Inr analysisResponse"
    and "generateContent env ai
           (generationRequest s
              (or_else (response_text analysisResponse)
                 ''No specific insights extracted from images.''))
         = Inr generationResponse"
  shows "snd (analyzeImagesAndGenerateQuestions env images s)
           = Inr (response_text generationResponse)"
  using run_composed [of env ai images imageParts s analysisResponse generationResponse] assms
  by (simp add: fallbackSummary_def)

theorem composition_text_returned_witness:
  "getGeminiClient example_env = Inr ''key''
   \<and> Promise_all (map (encodeImage example_env) [example_page])
       = Inr [\<lparr>mimeType = ''image/png'', data = Some ''iVBORw0=''\<rparr>]
   \<and> generateContent example_env ''key''
         (analysisRequest initialSettings [\<lparr>mimeType = ''image/png'', data = Some ''iVBORw0=''\<rparr>])
       = Inr \<lparr>response_text = Some ''''\<rparr>
   \<and> generateContent example_env ''key''
         (generationRequest initialSettings
            (or_else (response_text \<lparr>response_text = Some ''''\<rparr>)
               ''No specific insights extracted from images.''))
       = Inr \<lparr>response_text = Some ''## Multiple Choice Questions (MCQs)''\<rparr>
   \<and> snd (analyzeImagesAndGenerateQuestions example_env [example_page] initialSettings)
       = Inr (Some ''## Multiple Choice Questions (MCQs)'')"
proof -
  from composition_text_returned
         [OF example_key(1) example_parts(1) example_analysed example_composed]
  have "snd (analyzeImagesAndGenerateQuestions example_env [example_page] initialSettings)
       = Inr (Some ''## Multiple Choice Questions (MCQs)'')"
    by simp
  with example_key(1) example_parts(1) example_analysed example_composed
  show ?thesis by (intro conjI)
qed

text \<open>
  C9. When \<^verbatim>\<open>process.env.API_KEY\<close> is absent, the run ends at once with the error "API_KEY is
  not defined in the environment variables." and an empty trace: no read has started and
  no request has been issued.
\<close>

theorem missing_API_KEY:
  assumes "API_KEY env = None"
  shows "analyzeImagesAndGenerateQuestions env images s
           = ([], Inl (Thrown ''Error'' (Some ''API_KEY is not defined in the environment variables.'')))
         \<and> includes_str ''API_KEY is not defined in the environment variables.''
              ''API_KEY is not defined''"
proof -
  have "getGeminiClient env
          = Inl (Thrown ''Error'' (Some ''API_KEY is not defined in the environment variables.''))"
    using assms by (simp add: getGeminiClient_def truthy_def new_Error_def)
  then have "analyzeImagesAndGenerateQuestions env images s
           = ([], Inl (Thrown ''Error'' (Some ''API_KEY is not defined in the environment variables.'')))"
    by (rule run_no_key)
  moreover have "includes_str ''API_KEY is not defined in the environment variables.''
              ''API_KEY is not defined''"
    by simp
  ultimately show ?thesis by simp
qed

theorem missing_API_KEY_witness:
  "API_KEY env_no_key = None
   \<and> analyzeImagesAndGenerateQuestions env_no_key [example_page] initialSettings
       = ([], Inl (Thrown ''Error'' (Some ''API_KEY is not defined in the environment variables.'')))
   \<and> includes_str ''API_KEY is not defined in the environment variables.''
        ''API_KEY is not defined''"
proof -
  have k: "API_KEY env_no_key = None"
    by (simp add: env_no_key_def)
  from missing_API_KEY [OF k, of "[example_page]" initialSettings] k
  show ?thesis by (intro conjI) simp_all
qed

text \<open>
  C10. When no image is uploaded, the handler \<open>generateExam\<close> sets the error message
  "Please upload at least one image.", clears \<open>loading\<close> and returns; nothing has happened
  besides, in particular the service function has not been called.
\<close>

theorem generateExam_no_images:
  assumes "uploadedImages st = []"
  shows "generateExam env st
           = (st\<lparr>error := Some ''Please upload at least one image.'', loading := False,
                 generatedExam := None\<rparr>, [], None)"
  using assms by (simp add: generateExam_def)

theorem generateExam_no_images_witness:
  "uploadedImages example_state = []
   \<and> generateExam example_env example_state
       = (example_state\<lparr>error := Some ''Please upload at least one image.'', loading := False,
                        generatedExam := None\<rparr>, [], None)"
proof -
  have u: "uploadedImages example_state = []"
    by (simp add: example_state_def)
  from generateExam_no_images [OF u, of example_env] u
  show ?thesis by (intro conjI)
qed

end
